theory Spec2Isabelle
  imports Main "HOL-Library.Sublist"
begin

section \<open>Data model (src/constants.ts, the types module)\<close>

text \<open>
  Strings are lists of 8-bit characters. The command language, the device identifiers and
  the addresses of the program are ASCII; the character classes below (white space, digits,
  letters, lower-casing) are the ASCII parts of their JavaScript counterparts.
\<close>

datatype DeviceType =
  ROUTER | SWITCH_L2 | SWITCH_L3 | FIREWALL | PC | LAPTOP | SERVER
  | ACCESS_POINT | PRINTER | PHONE | HUB | INTERNET | SDWAN_EDGE

text \<open>The string value of each member of the string enum \<open>DeviceType\<close>.\<close>

fun DeviceType_str :: "DeviceType \<Rightarrow> string" where
  "DeviceType_str ROUTER = ''ROUTER''"
| "DeviceType_str SWITCH_L2 = ''SWITCH_L2''"
| "DeviceType_str SWITCH_L3 = ''SWITCH_L3''"
| "DeviceType_str FIREWALL = ''FIREWALL''"
| "DeviceType_str PC = ''PC''"
| "DeviceType_str LAPTOP = ''LAPTOP''"
| "DeviceType_str SERVER = ''SERVER''"
| "DeviceType_str ACCESS_POINT = ''ACCESS_POINT''"
| "DeviceType_str PRINTER = ''PRINTER''"
| "DeviceType_str PHONE = ''PHONE''"
| "DeviceType_str HUB = ''HUB''"
| "DeviceType_str INTERNET = ''INTERNET''"
| "DeviceType_str SDWAN_EDGE = ''SDWAN_EDGE''"

datatype Status = up | down | booting

datatype SwitchportMode = access | trunk | dynamic

record InterfaceConfig =
  name :: string
  description :: "string option"
  ip_if :: "string option"
  mask :: "string option"
  shutdown :: bool
  switchportMode :: "SwitchportMode option"
  accessVlan :: "int option"
  trunkAllowedVlans :: "string option"
  nativeVlan :: "int option"

record LineConfig =
  password :: "string option"
  login :: "bool option"

record Lines =
  console :: "LineConfig option"
  vty :: "LineConfig option"

record DeviceConfig =
  gateway :: "string option"

text \<open>
  \<open>NetworkNodeData\<close>: an optional field is an \<open>option\<close>; the two \<open>Record\<close> tables are
  partial maps holding the tables' own entries. VLAN ids are JavaScript numbers holding
  integers, modelled as \<open>int\<close> (see \<open>exactNumber\<close> below for the range in which the two
  agree).
\<close>

record NetworkNodeData =
  label :: string
  type :: DeviceType
  ip :: "string option"
  mac :: "string option"
  status :: Status
  floor_d :: "string option"
  isVulnerable :: "bool option"
  hostname :: "string option"
  domainName :: "string option"
  ipRouting :: "bool option"
  vlanDb :: "(int \<rightharpoonup> string) option"
  interfaces :: "(string \<rightharpoonup> InterfaceConfig) option"
  lines :: "Lines option"
  assignedVlan :: "int option"
  config :: "DeviceConfig option"

text \<open>
  \<open>NetworkNode\<close> is the graph library's node carrying a \<open>NetworkNodeData\<close>; of the
  library's own fields only the identifier is read by the code modelled here. Likewise for
  \<open>Edge\<close>: identifier and the two endpoint identifiers.
\<close>

record NetworkNode =
  node_id :: string
  data :: NetworkNodeData

record Edge =
  edge_id :: string
  source :: string
  target :: string

record PacketSimulationResult =
  success :: bool
  path :: "string list"
  hops :: int
  message :: string

section \<open>String helpers (JavaScript built-ins used by the code)\<close>

definition isDigit :: "char \<Rightarrow> bool" where
  "isDigit c = (c \<in> set ''0123456789'')"

text \<open>\<open>s.split(sep)\<close> for a one-character separator.\<close>

fun split_char :: "char \<Rightarrow> string \<Rightarrow> string list" where
  "split_char sep [] = ['''']"
| "split_char sep (c # cs) =
     (if c = sep then [] # split_char sep cs
      else (case split_char sep cs of
              [] \<Rightarrow> [c # []]
            | g # gs \<Rightarrow> (c # g) # gs))"

text \<open>\<open>parts.join(sep)\<close>.\<close>

fun join :: "string \<Rightarrow> string list \<Rightarrow> string" where
  "join sep [] = []"
| "join sep [x] = x"
| "join sep (x # y # ys) = x @ sep @ join sep (y # ys)"

text \<open>
  A JavaScript number is a double. Every integer from \<open>-2^53\<close> to \<open>2^53\<close> is a double,
  and there the arithmetic and the decimal rendering of the platform are those of the
  integers. Outside that range a number read from a text is rounded to the nearest double,
  and from \<open>10^21\<close> on it is printed with an exponent. The model computes with exact
  integers: it is the program on the numbers in the exact range, and a property that
  carries a number read from the command line into its result is stated for that range.
  (The negative zero of the platform, read from the text \<open>-0\<close>, equals zero and prints as
  \<open>0\<close>; it is the integer 0 here.)
\<close>

definition exactNumber :: "int \<Rightarrow> bool" where
  "exactNumber n = (- 9007199254740992 \<le> n \<and> n \<le> 9007199254740992)"

text \<open>
  Decimal rendering of a number holding an integer of the exact range (\<open>toString\<close>,
  template literals).
\<close>

definition digit_char :: "nat \<Rightarrow> char" where
  "digit_char d =
     (if d = 0 then CHR ''0'' else if d = 1 then CHR ''1'' else if d = 2 then CHR ''2''
      else if d = 3 then CHR ''3'' else if d = 4 then CHR ''4'' else if d = 5 then CHR ''5''
      else if d = 6 then CHR ''6'' else if d = 7 then CHR ''7'' else if d = 8 then CHR ''8''
      else CHR ''9'')"

fun show_nat :: "nat \<Rightarrow> string" where
  "show_nat n =
     (if n < 10 then [digit_char n] else show_nat (n div 10) @ [digit_char (n mod 10)])"

declare show_nat.simps [simp del]

definition toString :: "int \<Rightarrow> string" where
  "toString i = (if i < 0 then CHR ''-'' # show_nat (nat (- i)) else show_nat (nat i))"

section \<open>Connection validator (src/services/rules.ts, validateConnection)\<close>

datatype Level = warning | error | info

text \<open>The result object; \<open>level\<close> is an optional field (\<open>level?:\<close>).\<close>

record ValidationResult =
  isValid :: bool
  message_v :: string
  level :: "Level option"

definition validateConnection :: "DeviceType \<Rightarrow> DeviceType \<Rightarrow> ValidationResult" where
  "validateConnection sourceType targetType =
     (if sourceType = PC \<and> targetType = PC then
        \<lparr>isValid = True,
         message_v = ''PC connected directly to PC. Ensure IPs are in the same subnet.'',
         level = Some warning\<rparr>
      else if sourceType = INTERNET \<and> targetType = PC then
        \<lparr>isValid = True,
         message_v = ''DANGER: Direct Internet connection to PC! Please use a Firewall or Router.'',
         level = Some error\<rparr>
      else if sourceType = SWITCH_L2 \<and> targetType = INTERNET then
        \<lparr>isValid = True,
         message_v = ''L2 Switches cannot terminate ISP links directly without a Router/Gateway.'',
         level = Some warning\<rparr>
      else \<lparr>isValid = True, message_v = ''Connection established.'', level = None\<rparr>)"

text \<open>
  The one caller (src/App.tsx, onConnect) shows the message in a toast whose type is
  \<open>validation.level || 'info'\<close>.
\<close>

definition toastType :: "ValidationResult \<Rightarrow> Level" where
  "toastType validation = (case level validation of None \<Rightarrow> info | Some l \<Rightarrow> l)"

section \<open>Reachability engine (src/services/rules.ts)\<close>

text \<open>
  \<open>isValidIP\<close> tests the regular expression \<open>/^(?:[0-9]{1,3}\.){3}[0-9]{1,3}$/\<close>. The
  matcher below follows the expression piece by piece: each piece maps a remaining input to
  the list of remainders it can leave, \<open>$\<close> asks for the empty remainder.
\<close>

definition digits13 :: "string \<Rightarrow> string list" where
  "digits13 s = [drop k s. k \<leftarrow> [1, 2, 3], k \<le> length s, list_all isDigit (take k s)]"

definition dot :: "string \<Rightarrow> string list" where
  "dot s = (case s of [] \<Rightarrow> [] | c # r \<Rightarrow> if c = CHR ''.'' then [r] else [])"

definition octetDot :: "string \<Rightarrow> string list" where
  "octetDot s = List.bind (digits13 s) dot"

definition ipRegex_test :: "string \<Rightarrow> bool" where
  "ipRegex_test s =
     ([] \<in> set (List.bind (List.bind (List.bind (octetDot s) octetDot) octetDot) digits13))"

text \<open>\<open>ip && regex.test(ip)\<close>: an absent or empty address is falsy.\<close>

definition isValidIP :: "string option \<Rightarrow> bool" where
  "isValidIP addr = (case addr of None \<Rightarrow> False | Some s \<Rightarrow> s \<noteq> [] \<and> ipRegex_test s)"

text \<open>\<open>ip.split('.').slice(0, 3).join('.')\<close>\<close>

definition getSubnet :: "string \<Rightarrow> string" where
  "getSubnet addr = join ''.'' (take 3 (split_char (CHR ''.'') addr))"

text \<open>
  The adjacency list is a \<open>Map\<close> from identifier to array of identifiers, filled edge by
  edge; a \<open>Map\<close> keeps its keys in insertion order, so it is an association list here.
\<close>

type_synonym AdjacencyList = "(string \<times> string list) list"

definition adj_has :: "AdjacencyList \<Rightarrow> string \<Rightarrow> bool" where
  "adj_has adj k = (map_of adj k \<noteq> None)"

definition adj_push :: "AdjacencyList \<Rightarrow> string \<Rightarrow> string \<Rightarrow> AdjacencyList" where
  "adj_push adj k v = map (\<lambda>(k', vs). if k' = k then (k', vs @ [v]) else (k', vs)) adj"

definition addEdge :: "AdjacencyList \<Rightarrow> Edge \<Rightarrow> AdjacencyList" where
  "addEdge adj e =
     (let a1 = (if \<not> adj_has adj (source e) then adj @ [(source e, [])] else adj);
          a2 = (if \<not> adj_has a1 (target e) then a1 @ [(target e, [])] else a1);
          a3 = adj_push a2 (source e) (target e)
      in adj_push a3 (target e) (source e))"

definition buildAdjacency :: "Edge list \<Rightarrow> AdjacencyList" where
  "buildAdjacency es = foldl addEdge [] es"

definition neighborsOf :: "AdjacencyList \<Rightarrow> string \<Rightarrow> string list" where
  "neighborsOf adj k = (case map_of adj k of None \<Rightarrow> [] | Some vs \<Rightarrow> vs)"

text \<open>
  The breadth-first search. A queue item is \<open>{id, path}\<close>; the body of the inner
  \<open>for\<close> loop is \<open>visitNeighbor\<close>, the \<open>while\<close> loop is \<open>bfs\<close>, whose result is
  \<open>None\<close> when the queue runs empty (\<open>pathFound\<close> stays false).
\<close>

type_synonym QueueItem = "string \<times> string list"

definition visitNeighbor ::
  "string list \<Rightarrow> string set \<times> QueueItem list \<Rightarrow> string \<Rightarrow> string set \<times> QueueItem list" where
  "visitNeighbor cpath vq neighborId =
     (if neighborId \<notin> fst vq
      then (insert neighborId (fst vq), snd vq @ [(neighborId, cpath @ [neighborId])])
      else vq)"

text \<open>
  The loop terminates: every identifier ever queued is a neighbour listed in the adjacency
  list, and each is queued at most once.
\<close>

definition adj_nodes :: "AdjacencyList \<Rightarrow> string set" where
  "adj_nodes adj = set (concat (map snd adj))"

definition bfs_measure :: "AdjacencyList \<times> string \<times> QueueItem list \<times> string set \<Rightarrow> nat" where
  "bfs_measure x = (case x of (adj, e, queue, visited) \<Rightarrow>
      length queue + 2 * card (adj_nodes adj - visited))"

lemma visitNeighbor_measure:
  "set nbs \<subseteq> adj_nodes adj \<Longrightarrow>
   length (snd (foldl (visitNeighbor p) vq nbs))
     + 2 * card (adj_nodes adj - fst (foldl (visitNeighbor p) vq nbs))
   \<le> length (snd vq) + 2 * card (adj_nodes adj - fst vq)"
proof (induction nbs arbitrary: vq)
  case Nil
  then show ?case by simp
next
  case (Cons nb nbs)
  have fin: "finite (adj_nodes adj)" by (simp add: adj_nodes_def)
  have nb: "nb \<in> adj_nodes adj" using Cons.prems by simp
  have step: "length (snd (visitNeighbor p vq nb))
      + 2 * card (adj_nodes adj - fst (visitNeighbor p vq nb))
      \<le> length (snd vq) + 2 * card (adj_nodes adj - fst vq)"
  proof (cases "nb \<in> fst vq")
    case True
    then show ?thesis by (simp add: visitNeighbor_def)
  next
    case False
    have "adj_nodes adj - insert nb (fst vq) = (adj_nodes adj - fst vq) - {nb}" by auto
    moreover have "nb \<in> adj_nodes adj - fst vq" using nb False by simp
    ultimately have "card (adj_nodes adj - insert nb (fst vq)) < card (adj_nodes adj - fst vq)"
      using fin by (metis card_Diff1_less finite_Diff)
    then show ?thesis using False by (simp add: visitNeighbor_def)
  qed
  have "set nbs \<subseteq> adj_nodes adj" using Cons.prems by simp
  from Cons.IH [OF this, of "visitNeighbor p vq nb"] step show ?case by simp
qed

lemma neighborsOf_subset: "set (neighborsOf adj k) \<subseteq> adj_nodes adj"
proof (cases "map_of adj k")
  case None
  then show ?thesis by (simp add: neighborsOf_def)
next
  case (Some vs)
  then have "(k, vs) \<in> set adj" by (rule map_of_SomeD)
  then have "set vs \<subseteq> adj_nodes adj" by (force simp: adj_nodes_def)
  then show ?thesis using Some by (simp add: neighborsOf_def)
qed

function bfs ::
  "AdjacencyList \<Rightarrow> string \<Rightarrow> QueueItem list \<Rightarrow> string set \<Rightarrow> string list option" where
  "bfs adj endNodeId [] visited = None"
| "bfs adj endNodeId (current # queue) visited =
     (if fst current = endNodeId then Some (snd current)
      else bfs adj endNodeId
             (snd (foldl (visitNeighbor (snd current)) (visited, queue)
                         (neighborsOf adj (fst current))))
             (fst (foldl (visitNeighbor (snd current)) (visited, queue)
                         (neighborsOf adj (fst current)))))"
  by pat_completeness auto
termination
proof (relation "measure bfs_measure")
  show "wf (measure bfs_measure)" by simp
next
  fix adj :: AdjacencyList and endNodeId :: string and current :: QueueItem
    and queue :: "QueueItem list" and visited :: "string set"
  have "set (neighborsOf adj (fst current)) \<subseteq> adj_nodes adj"
    by (rule neighborsOf_subset)
  from visitNeighbor_measure [OF this, where p = "snd current" and vq = "(visited, queue)"]
  show "((adj, endNodeId,
          snd (foldl (visitNeighbor (snd current)) (visited, queue) (neighborsOf adj (fst current))),
          fst (foldl (visitNeighbor (snd current)) (visited, queue) (neighborsOf adj (fst current)))),
         (adj, endNodeId, current # queue, visited)) \<in> measure bfs_measure"
    by (simp add: bfs_measure_def)
qed

text \<open>
  The callbacks of \<open>physicalPath.find\<close> and \<open>physicalPath.some\<close>, and the label printed
  for the broken device (\<open>node?.data.label\<close>).
\<close>

definition isDownAt :: "NetworkNode list \<Rightarrow> string \<Rightarrow> bool" where
  "isDownAt nodes i =
     (case find (\<lambda>n. node_id n = i) nodes of None \<Rightarrow> False
      | Some node \<Rightarrow> status (data node) = down)"

definition isRouterAt :: "NetworkNode list \<Rightarrow> string \<Rightarrow> bool" where
  "isRouterAt nodes i =
     (case find (\<lambda>n. node_id n = i) nodes of None \<Rightarrow> False
      | Some node \<Rightarrow> type (data node) = ROUTER \<or> type (data node) = SWITCH_L3
                     \<or> type (data node) = FIREWALL)"

definition labelAt :: "NetworkNode list \<Rightarrow> string \<Rightarrow> string" where
  "labelAt nodes i =
     (case find (\<lambda>n. node_id n = i) nodes of None \<Rightarrow> ''undefined''
      | Some node \<Rightarrow> label (data node))"

text \<open>
  The section PATH VALIDATION of \<open>findPath\<close>, run on the path the search found.
  \<open>if (brokenDevice)\<close> tests the found identifier for truthiness: the empty string is falsy.
\<close>

definition validatePath ::
  "NetworkNode list \<Rightarrow> string \<Rightarrow> string \<Rightarrow> string list \<Rightarrow> PacketSimulationResult" where
  "validatePath nodes sourceIP targetIP physicalPath =
     (let sourceSubnet = getSubnet sourceIP;
          targetSubnet = getSubnet targetIP;
          isSameSubnet = (sourceSubnet = targetSubnet);
          brokenDevice = find (isDownAt nodes) physicalPath
      in if brokenDevice \<noteq> None \<and> brokenDevice \<noteq> Some [] then
           \<lparr>success = False, path = physicalPath, hops = 0,
            message = ''Link Failure: Packet dropped at '' @ labelAt nodes (the brokenDevice)
                      @ '' (Device is DOWN).''\<rparr>
         else if \<not> isSameSubnet \<and> \<not> list_ex (isRouterAt nodes) physicalPath then
           \<lparr>success = False, path = physicalPath, hops = 0,
            message = ''Routing Error: Devices are in different subnets ('' @ sourceSubnet
                      @ ''.x vs '' @ targetSubnet
                      @ ''.x) but no Router/Gateway was found in the path.''\<rparr>
         else
           \<lparr>success = True, path = physicalPath, hops = int (length physicalPath) - 1,
            message = ''Success! Packet delivered from '' @ sourceIP @ '' to '' @ targetIP
                      @ '' via '' @ toString (int (length physicalPath) - 1) @ '' hops.''\<rparr>)"

definition findPath ::
  "NetworkNode list \<Rightarrow> Edge list \<Rightarrow> string \<Rightarrow> string \<Rightarrow> PacketSimulationResult" where
  "findPath nodes edges startNodeId endNodeId =
     (case find (\<lambda>n. node_id n = startNodeId) nodes of
        None \<Rightarrow> \<lparr>success = False, path = [], hops = 0, message = ''Device not found.''\<rparr>
      | Some startNode \<Rightarrow>
     (case find (\<lambda>n. node_id n = endNodeId) nodes of
        None \<Rightarrow> \<lparr>success = False, path = [], hops = 0, message = ''Device not found.''\<rparr>
      | Some endNode \<Rightarrow>
        if \<not> isValidIP (ip (data startNode)) then
          \<lparr>success = False, path = [], hops = 0,
           message = ''Configuration Error: Source device ('' @ label (data startNode)
                     @ '') is missing a valid IP address.''\<rparr>
        else if \<not> isValidIP (ip (data endNode)) then
          \<lparr>success = False, path = [], hops = 0,
           message = ''Configuration Error: Destination device ('' @ label (data endNode)
                     @ '') is missing a valid IP address.''\<rparr>
        else
          (case bfs (buildAdjacency edges) endNodeId [(startNodeId, [startNodeId])]
                    {startNodeId} of
             None \<Rightarrow>
               \<lparr>success = False, path = [], hops = 0,
                message = ''Physical Link Error: No cable connection exists between these devices.''\<rparr>
           | Some physicalPath \<Rightarrow>
               validatePath nodes (the (ip (data startNode))) (the (ip (data endNode)))
                 physicalPath)))"

section \<open>Command interpreter (the terminal component, src/unnamed/part_001)\<close>

subsection \<open>String built-ins used by the interpreter\<close>

text \<open>White space (\<open>\s\<close>, \<open>trim\<close>) and lower-casing, on ASCII.\<close>

definition isSpace :: "char \<Rightarrow> bool" where
  "isSpace c = (c \<in> set [CHR '' '', CHR 0x09, CHR 0x0A, CHR 0x0B, CHR 0x0C, CHR 0x0D])"

definition trim :: "string \<Rightarrow> string" where
  "trim s = rev (dropWhile isSpace (rev (dropWhile isSpace s)))"

definition toLowerCase_char :: "char \<Rightarrow> char" where
  "toLowerCase_char c =
     (case map_of (zip ''ABCDEFGHIJKLMNOPQRSTUVWXYZ'' ''abcdefghijklmnopqrstuvwxyz'') c of
        None \<Rightarrow> c
      | Some l \<Rightarrow> l)"

definition toLowerCase :: "string \<Rightarrow> string" where
  "toLowerCase s = map toLowerCase_char s"

text \<open>
  \<open>s.split(/\s+/)\<close>: the pieces between maximal runs of white space; a leading or a
  trailing run leaves an empty first or last piece, and the empty text splits into one
  empty piece.
\<close>

fun split_ws_from :: "string \<Rightarrow> bool \<Rightarrow> string \<Rightarrow> string list" where
  "split_ws_from cur inGap [] = [rev cur]"
| "split_ws_from cur inGap (c # cs) =
     (if isSpace c then
        (if inGap then split_ws_from [] True cs else rev cur # split_ws_from [] True cs)
      else split_ws_from (c # cur) False cs)"

definition split_ws :: "string \<Rightarrow> string list" where
  "split_ws s = split_ws_from [] False s"

text \<open>\<open>s.startsWith(p)\<close>\<close>

definition startsWith :: "string \<Rightarrow> string \<Rightarrow> bool" where
  "startsWith s p = prefix p s"

subsection \<open>matchCmd\<close>

text \<open>
  The \<open>for\<close> loop of \<open>matchCmd\<close> over the positions of the canonical command.
  \<open>!inputParts[i]\<close> holds when the typed input has no token at position \<open>i\<close> or an
  empty one. (The \<open>if\<close> before the loop has an empty body.)
\<close>

function matchLoop :: "string list \<Rightarrow> string list \<Rightarrow> nat \<Rightarrow> bool" where
  "matchLoop inputParts targetParts i =
     (if i < length targetParts then
        (if \<not> (i < length inputParts \<and> inputParts ! i \<noteq> []) then False
         else if \<not> startsWith (targetParts ! i) (inputParts ! i) then False
         else matchLoop inputParts targetParts (Suc i))
      else True)"
  by pat_completeness auto
termination
  by (relation "measure (\<lambda>(inputParts, targetParts, i). length targetParts - i)") auto

declare matchLoop.simps [simp del]

definition matchCmd :: "string \<Rightarrow> string \<Rightarrow> bool" where
  "matchCmd inputStr targetCmd =
     (if inputStr = [] then False
      else matchLoop (split_ws (toLowerCase (trim inputStr)))
                     (split_ws (toLowerCase targetCmd)) 0)"

subsection \<open>ensureInterface\<close>

text \<open>
  The interface table is a plain object (the code builds it with \<open>{}\<close> and by spreading),
  and \<open>interfaces[ifName]\<close> is a property lookup: where the table has no entry of its own
  under the name, the lookup finds what every plain object inherits from
  \<open>Object.prototype\<close> under that name, if anything. The inherited members are functions,
  and the prototype object itself under \<open>__proto__\<close>; all of them are truthy.
\<close>

definition objectPrototypeNames :: "string list" where
  "objectPrototypeNames =
     [''constructor'', ''hasOwnProperty'', ''isPrototypeOf'', ''propertyIsEnumerable'',
      ''toLocaleString'', ''toString'', ''valueOf'', ''__proto__'',
      ''__defineGetter__'', ''__defineSetter__'', ''__lookupGetter__'', ''__lookupSetter__'']"

datatype Lookup = Own InterfaceConfig | Inherited | Missing

definition lookupInterface :: "(string \<rightharpoonup> InterfaceConfig) \<Rightarrow> string \<Rightarrow> Lookup" where
  "lookupInterface table ifName =
     (case table ifName of
        Some c \<Rightarrow> Own c
      | None \<Rightarrow> if ifName \<in> set objectPrototypeNames then Inherited else Missing)"

definition defaultInterface :: "string \<Rightarrow> InterfaceConfig" where
  "defaultInterface ifName =
     \<lparr>name = ifName, description = None, ip_if = None, mask = None, shutdown = False,
      switchportMode = Some access, accessVlan = Some 1,
      trunkAllowedVlans = Some ''1-4094'', nativeVlan = None\<rparr>"

text \<open>
  \<open>!newData.interfaces[ifName]\<close> holds when the lookup finds nothing: neither an entry of
  the table nor an inherited member.
\<close>

definition ensureInterface :: "NetworkNode \<Rightarrow> string \<Rightarrow> NetworkNode" where
  "ensureInterface node ifName =
     (let newData = data node;
          newData1 = (if interfaces newData = None
                      then newData\<lparr>interfaces := Some Map.empty\<rparr> else newData);
          newData2 = (if lookupInterface (the (interfaces newData1)) ifName = Missing
                      then newData1\<lparr>interfaces :=
                             Some ((the (interfaces newData1))(ifName \<mapsto> defaultInterface ifName))\<rparr>
                      else newData1)
      in node\<lparr>data := newData2\<rparr>)"

text \<open>
  The record that a device's table holds under a name as an entry of its own, if any (the
  entries of its own are what \<open>Object.keys\<close> and \<open>Object.values\<close> enumerate).
\<close>

definition interfaceOf :: "NetworkNode \<Rightarrow> string \<Rightarrow> InterfaceConfig option" where
  "interfaceOf node ifName =
     (case interfaces (data node) of None \<Rightarrow> None | Some table \<Rightarrow> table ifName)"

subsection \<open>Further built-ins\<close>

text \<open>\<open>xs[i]\<close>, which is \<open>undefined\<close> out of range, and the truthiness of such a text.\<close>

definition nth_opt :: "'a list \<Rightarrow> nat \<Rightarrow> 'a option" where
  "nth_opt xs i = (if i < length xs then Some (xs ! i) else None)"

definition truthy :: "string option \<Rightarrow> bool" where
  "truthy v = (case v of None \<Rightarrow> False | Some s \<Rightarrow> s \<noteq> [])"

text \<open>\<open>s.includes(sub)\<close>\<close>

fun includes_s :: "string \<Rightarrow> string \<Rightarrow> bool" where
  "includes_s [] sub = (sub = [])"
| "includes_s (c # cs) sub = (prefix sub (c # cs) \<or> includes_s cs sub)"

text \<open>
  \<open>s.split(sep)\<close> for a non-empty separator text: scanning from the left, each occurrence
  of the separator closes the current piece and is skipped.
\<close>

fun split_str_from :: "string \<Rightarrow> string \<Rightarrow> nat \<Rightarrow> string \<Rightarrow> string list" where
  "split_str_from sep cur skip [] = [rev cur]"
| "split_str_from sep cur skip (c # cs) =
     (if 0 < skip then split_str_from sep cur (skip - 1) cs
      else if prefix sep (c # cs) then rev cur # split_str_from sep [] (length sep - 1) cs
      else split_str_from sep (c # cur) 0 cs)"

definition split_str :: "string \<Rightarrow> string \<Rightarrow> string list" where
  "split_str sep s = split_str_from sep [] 0 s"

text \<open>\<open>s.padStart(n, c)\<close> and \<open>s.padEnd(n, c)\<close> for a one-character filler.\<close>

definition padStart :: "nat \<Rightarrow> char \<Rightarrow> string \<Rightarrow> string" where
  "padStart n c s = replicate (n - length s) c @ s"

definition padEnd :: "nat \<Rightarrow> char \<Rightarrow> string \<Rightarrow> string" where
  "padEnd n c s = s @ replicate (n - length s) c"

text \<open>
  \<open>parseInt(s)\<close> with no radix: leading white space is skipped, a sign is read, the
  prefix \<open>0x\<close> or \<open>0X\<close> selects radix 16, and the longest run of digits of the radix is
  the value; no digit at all gives \<open>NaN\<close>, which is \<open>None\<close> here. The value is the integer
  that the digits denote: the number \<open>parseInt\<close> returns whenever that integer is in the
  exact range (\<open>exactNumber\<close>), and the double nearest to it otherwise.
\<close>

definition digitOf :: "nat \<Rightarrow> char \<Rightarrow> nat option" where
  "digitOf radix c =
     (if radix = 16
      then map_of (zip ''0123456789abcdefABCDEF''
                       [0, 1, 2, 3, 4, 5, 6, 7, 8, 9, 10, 11, 12, 13, 14, 15, 10, 11, 12, 13, 14, 15]) c
      else map_of (zip ''0123456789'' [0, 1, 2, 3, 4, 5, 6, 7, 8, 9]) c)"

definition digitsValue :: "nat \<Rightarrow> string \<Rightarrow> nat" where
  "digitsValue radix ds = foldl (\<lambda>acc c. acc * radix + the (digitOf radix c)) 0 ds"

definition parseInt :: "string \<Rightarrow> int option" where
  "parseInt str =
     (let s = dropWhile isSpace str;
          negative = prefix ''-'' s;
          s1 = (if prefix ''+'' s \<or> prefix ''-'' s then tl s else s);
          hex = (prefix ''0x'' s1 \<or> prefix ''0X'' s1);
          radix = (if hex then 16 else 10);
          s2 = (if hex then drop 2 s1 else s1);
          ds = takeWhile (\<lambda>c. digitOf radix c \<noteq> None) s2
      in if ds = [] then None
         else Some ((if negative then - 1 else 1) * int (digitsValue radix ds)))"

text \<open>\<open>parseInt(tokens[1])\<close> of a possibly missing token: \<open>parseInt(undefined)\<close> is \<open>NaN\<close>.\<close>

definition parseInt_opt :: "string option \<Rightarrow> int option" where
  "parseInt_opt v = (case v of None \<Rightarrow> None | Some s \<Rightarrow> parseInt s)"

text \<open>
  \<open>xs.sort(cmp)\<close>, a stable sort, for a comparator that returns a number: insertion from
  the right, each element placed before the first one it does not exceed.
\<close>

fun insort_by :: "('a \<Rightarrow> 'a \<Rightarrow> int) \<Rightarrow> 'a \<Rightarrow> 'a list \<Rightarrow> 'a list" where
  "insort_by cmp x [] = [x]"
| "insort_by cmp x (y # ys) = (if cmp x y \<le> 0 then x # y # ys else y # insort_by cmp x ys)"

definition sort_by :: "('a \<Rightarrow> 'a \<Rightarrow> int) \<Rightarrow> 'a list \<Rightarrow> 'a list" where
  "sort_by cmp xs = foldr (insort_by cmp) xs []"

subsection \<open>Session and component state\<close>

text \<open>
  The mode of a session is one of six prompt texts; the constructors carry the
  specification's names and \<open>Mode_str\<close> gives the text.
\<close>

datatype Mode = UserExec | PrivilegedExec | GlobalConfig | InterfaceConfig | VlanConfig | LineConfig

fun Mode_str :: "Mode \<Rightarrow> string" where
  "Mode_str UserExec = ''>''"
| "Mode_str PrivilegedExec = ''#''"
| "Mode_str GlobalConfig = ''(config)#''"
| "Mode_str InterfaceConfig = ''(config-if)#''"
| "Mode_str VlanConfig = ''(config-vlan)#''"
| "Mode_str LineConfig = ''(config-line)#''"

record TerminalState =
  isOpen :: bool
  nodeId :: "string option"
  history :: "string list"
  hostname_t :: string
  mode :: Mode

text \<open>
  Everything a call of \<open>handleCommand\<close> reads or writes: the properties \<open>state\<close>,
  \<open>nodes\<close> and \<open>edges\<close> (written through \<open>onUpdateState\<close>, \<open>onClose\<close> and \<open>setNodes\<close>),
  the component's own state variables, and two logs of what it starts without waiting for:
  the restart timer of \<open>reload\<close> and the requests to the advisory service \<open>getCLIFix\<close>.
\<close>

record Terminal =
  state :: TerminalState
  nodes :: "NetworkNode list"
  edges :: "Edge list"
  input :: string
  output_t :: "string list"
  contextInt :: string
  contextVlan :: int
  contextLine :: string
  isBooting :: bool
  historyIdx :: int
  reloadTimers :: nat
  fixRequests :: "(string \<times> string) list"

text \<open>
  What the interpreter takes from outside this model: the platform's collation
  \<open>localeCompare\<close>, and the layout of the three configuration listings (texts built by
  \<open>getRunningConfig\<close>, \<open>getVlanBrief\<close> and \<open>getDynamicIpIntBrief\<close> for the bound device),
  on which no property below depends.
\<close>

record Externals =
  localeCompare :: "string \<Rightarrow> string \<Rightarrow> int"
  runningConfigText :: "NetworkNode \<Rightarrow> string"
  vlanBriefText :: "NetworkNode \<Rightarrow> string"
  ipIntBriefText :: "NetworkNode \<Rightarrow> Edge list \<Rightarrow> string"

text \<open>The local variables of \<open>handleCommand\<close> that its branches assign.\<close>

record Locals =
  response :: string
  newMode :: Mode
  newHostname :: string
  shouldClose :: bool

subsection \<open>Helpers of the component\<close>

definition getNode :: "Terminal \<Rightarrow> NetworkNode option" where
  "getNode t = find (\<lambda>n. Some (node_id n) = nodeId (state t)) (nodes t)"

definition getSortedEdges :: "Externals \<Rightarrow> Terminal \<Rightarrow> string option \<Rightarrow> Edge list" where
  "getSortedEdges X t nid =
     sort_by (\<lambda>a b. localeCompare X (edge_id a) (edge_id b))
       (filter (\<lambda>e. Some (source e) = nid \<or> Some (target e) = nid) (edges t))"

definition newline :: string where
  "newline = [CHR 0x0A]"

definition dquote :: string where
  "dquote = [CHR 0x22]"

definition helpTable :: "Mode \<Rightarrow> (string \<times> string) list" where
  "helpTable m =
     (case m of
        UserExec \<Rightarrow>
          [(''enable'', ''Turn on privileged commands''),
           (''ping'', ''Send echo messages''),
           (''show'', ''Show running system information''),
           (''exit'', ''Exit from the EXEC'')]
      | PrivilegedExec \<Rightarrow>
          [(''configure'', ''Enter configuration mode''),
           (''show running-config'', ''Show current config''),
           (''show vlan'', ''Show VLAN information''),
           (''show ip interface'', ''IP interface status''),
           (''reload'', ''Halt and perform a cold restart'')]
      | GlobalConfig \<Rightarrow>
          [(''hostname'', ''Set system network name''),
           (''interface'', ''Select interface to configure''),
           (''vlan'', ''VLAN configuration mode''),
           (''ip routing'', ''Enable IP routing''),
           (''exit'', ''Exit from configure mode'')]
      | InterfaceConfig \<Rightarrow>
          [(''switchport'', ''Set switching mode characteristics''),
           (''ip address'', ''Set the IP address of an interface''),
           (''shutdown'', ''Shutdown the selected interface''),
           (''no shutdown'', ''Restart the selected interface''),
           (''exit'', ''Exit from interface mode'')]
      | VlanConfig \<Rightarrow>
          [(''name'', ''Ascii name of the VLAN''),
           (''exit'', ''Exit from VLAN mode'')]
      | LineConfig \<Rightarrow> [])"

definition getHelp :: "Mode \<Rightarrow> string" where
  "getHelp m =
     foldl (\<lambda>out c. out @ ''  '' @ padEnd 20 (CHR '' '') (fst c) @ '' '' @ snd c @ newline)
       (''Exec commands:'' @ newline) (helpTable m)"

text \<open>
  The three listings return the empty text when the bound device is not found.
  \<open>getVlanBrief\<close> also writes: when the device has a VLAN table without a (non-empty) name
  for VLAN 1, it stores the name \<open>default\<close> there.
\<close>

definition getRunningConfig :: "Externals \<Rightarrow> Terminal \<Rightarrow> string" where
  "getRunningConfig X t = (case getNode t of None \<Rightarrow> [] | Some n \<Rightarrow> runningConfigText X n)"

definition getDynamicIpIntBrief :: "Externals \<Rightarrow> Terminal \<Rightarrow> string" where
  "getDynamicIpIntBrief X t =
     (case getNode t of None \<Rightarrow> []
      | Some n \<Rightarrow> ipIntBriefText X n (getSortedEdges X t (Some (node_id n))))"

definition touchVlan1 :: "NetworkNode \<Rightarrow> NetworkNode" where
  "touchVlan1 n =
     (case vlanDb (data n) of
        None \<Rightarrow> n
      | Some db \<Rightarrow>
          if \<not> truthy (db 1) then n\<lparr>data := (data n)\<lparr>vlanDb := Some (db(1 \<mapsto> ''default''))\<rparr>\<rparr>
          else n)"

fun touchFirst :: "(NetworkNode \<Rightarrow> bool) \<Rightarrow> NetworkNode list \<Rightarrow> NetworkNode list" where
  "touchFirst P [] = []"
| "touchFirst P (n # ns) = (if P n then touchVlan1 n # ns else n # touchFirst P ns)"

definition getVlanBrief :: "Externals \<Rightarrow> Terminal \<Rightarrow> string \<times> Terminal" where
  "getVlanBrief X t =
     (case getNode t of
        None \<Rightarrow> ([], t)
      | Some n \<Rightarrow>
          (vlanBriefText X (touchVlan1 n),
           t\<lparr>nodes := touchFirst (\<lambda>n. Some (node_id n) = nodeId (state t)) (nodes t)\<rparr>))"

text \<open>
  \<open>updateInt\<close> of the interface-configuration branch. The update is made when the bound
  device has a table and the lookup of the current interface name finds something there.
  An entry of the table is replaced by its updated copy. Under a name that is only
  inherited from \<open>Object.prototype\<close> (the command \<open>interface constructor\<close> leads there) the
  code has no record to copy: it stores an object that holds the changed fields alone, and
  under \<open>__proto__\<close> it makes that object the prototype of the new table. Such an object
  is not an \<open>InterfaceConfig\<close> (it has no name), and the tables of this model hold
  \<open>InterfaceConfig\<close> records: the model leaves the table as it is in that case, and no
  property below speaks of the interface table after such a step.
\<close>

definition updateIntNode ::
  "Terminal \<Rightarrow> (InterfaceConfig \<Rightarrow> InterfaceConfig) \<Rightarrow> NetworkNode \<Rightarrow> NetworkNode" where
  "updateIntNode t updater n =
     (if Some (node_id n) = nodeId (state t) \<and> interfaces (data n) \<noteq> None then
        (case lookupInterface (the (interfaces (data n))) (contextInt t) of
           Own c \<Rightarrow> n\<lparr>data := (data n)\<lparr>interfaces :=
                      Some ((the (interfaces (data n)))(contextInt t \<mapsto> updater c))\<rparr>\<rparr>
         | Inherited \<Rightarrow> n
         | Missing \<Rightarrow> n)
      else n)"

definition updateInt ::
  "Terminal \<Rightarrow> (InterfaceConfig \<Rightarrow> InterfaceConfig) \<Rightarrow> NetworkNode list \<Rightarrow> NetworkNode list" where
  "updateInt t updater nds = map (updateIntNode t updater) nds"

subsection \<open>The branches of handleCommand\<close>

text \<open>
  Each branch takes the component state and the locals and returns both as it leaves
  them. \<open>setNodes\<close> updates are applied to \<open>nodes\<close> in the order the branch issues them.
\<close>

text \<open>\<open>cmd === 'exit'\<close>\<close>

definition cmdExit :: "Terminal \<Rightarrow> Locals \<Rightarrow> Terminal \<times> Locals" where
  "cmdExit t l =
     (case mode (state t) of
        LineConfig \<Rightarrow> (t\<lparr>contextLine := []\<rparr>, l\<lparr>newMode := GlobalConfig\<rparr>)
      | InterfaceConfig \<Rightarrow> (t\<lparr>contextInt := []\<rparr>, l\<lparr>newMode := GlobalConfig\<rparr>)
      | VlanConfig \<Rightarrow> (t\<lparr>contextVlan := 0\<rparr>, l\<lparr>newMode := GlobalConfig\<rparr>)
      | GlobalConfig \<Rightarrow> (t, l\<lparr>newMode := PrivilegedExec\<rparr>)
      | PrivilegedExec \<Rightarrow> (t, l\<lparr>newMode := UserExec\<rparr>)
      | UserExec \<Rightarrow> (t, l\<lparr>shouldClose := True\<rparr>))"

text \<open>\<open>cmd === 'end'\<close>\<close>

definition cmdEnd :: "Terminal \<Rightarrow> Locals \<Rightarrow> Terminal \<times> Locals" where
  "cmdEnd t l =
     (t\<lparr>contextInt := [], contextLine := [], contextVlan := 0\<rparr>, l\<lparr>newMode := PrivilegedExec\<rparr>)"

text \<open>\<open>firstToken === 'do'\<close>\<close>

definition cmdDo :: "Externals \<Rightarrow> Terminal \<Rightarrow> string \<Rightarrow> Locals \<Rightarrow> Terminal \<times> Locals" where
  "cmdDo X t cmd l =
     (let subCmd = trim (drop 3 cmd)
      in if matchCmd subCmd ''show run'' then (t, l\<lparr>response := getRunningConfig X t\<rparr>)
         else if matchCmd subCmd ''show vlan''
           then (snd (getVlanBrief X t), l\<lparr>response := fst (getVlanBrief X t)\<rparr>)
         else if matchCmd subCmd ''show ip int''
           then (t, l\<lparr>response := getDynamicIpIntBrief X t\<rparr>)
         else if matchCmd subCmd ''ping''
           then (t, l\<lparr>response := ''Sending 5, 100-byte ICMP Echos... !!!!!''\<rparr>)
         else (t, l\<lparr>response := ''% Unrecognized command''\<rparr>))"

text \<open>User EXEC, \<open>state.mode === '>'\<close>. \<open>state.nodeId!\<close> may be \<open>null\<close>, which names no device.\<close>

definition pingResponse :: "Terminal \<Rightarrow> string \<Rightarrow> string" where
  "pingResponse t targetIP =
     (case find (\<lambda>n. ip (data n) = Some targetIP) (nodes t) of
        Some targetNode \<Rightarrow>
          (let res = (case nodeId (state t) of
                        None \<Rightarrow> \<lparr>success = False, path = [], hops = 0,
                                 message = ''Device not found.''\<rparr>
                      | Some i \<Rightarrow> findPath (nodes t) (edges t) i (node_id targetNode))
           in if success res
              then ''Sending 5, 100-byte ICMP Echos to '' @ targetIP
                   @ '', timeout is 2 seconds:'' @ newline @ ''!!!!!'' @ newline
                   @ ''Success rate is 100 percent (5/5).''
              else ''Sending 5, 100-byte ICMP Echos to '' @ targetIP
                   @ '', timeout is 2 seconds:'' @ newline @ ''.....'' @ newline
                   @ ''Success rate is 0 percent (0/5).'' @ newline @ message res)
      | None \<Rightarrow>
          ''Sending 5, 100-byte ICMP Echos to '' @ targetIP
          @ '', timeout is 2 seconds:'' @ newline @ ''.....'' @ newline
          @ ''Success rate is 0 percent (0/5).'')"

definition userExec :: "Terminal \<Rightarrow> string \<Rightarrow> string list \<Rightarrow> Locals \<Rightarrow> Terminal \<times> Locals" where
  "userExec t cmd tokens l =
     (if matchCmd cmd ''enable'' \<or> cmd = ''en'' then (t, l\<lparr>newMode := PrivilegedExec\<rparr>)
      else if matchCmd cmd ''ping'' then
        (if \<not> truthy (nth_opt tokens 1) then (t, l\<lparr>response := ''% Incomplete command.''\<rparr>)
         else (t, l\<lparr>response := pingResponse t (tokens ! 1)\<rparr>))
      else if matchCmd cmd ''show version'' \<or> cmd = ''sh ver'' then
        (t, l\<lparr>response := ''Cisco IOS Software, 15.2(4)E'' @ newline
                            @ ''System image file is '' @ dquote
                            @ ''flash:C2960-LANBASEK9-M.bin'' @ dquote\<rparr>)
      else if cmd \<noteq> ''exit'' then (t, l\<lparr>response := ''% Unknown command''\<rparr>)
      else (t, l))"

text \<open>
  Privileged EXEC, \<open>state.mode === '#'\<close>. \<open>reload\<close> returns from \<open>handleCommand\<close> at once
  (the result \<open>Inl\<close>): it clears the transcript and starts the restart timer.
\<close>

definition privilegedExec ::
  "Externals \<Rightarrow> Terminal \<Rightarrow> string \<Rightarrow> string \<Rightarrow> Locals \<Rightarrow> Terminal + Terminal \<times> Locals" where
  "privilegedExec X t cmd firstToken l =
     (if matchCmd cmd ''configure terminal'' \<or> cmd = ''conf t'' then
        Inr (t, l\<lparr>newMode := GlobalConfig,
                   response := ''Enter configuration commands, one per line.  End with CNTL/Z.''\<rparr>)
      else if matchCmd cmd ''show running-config'' \<or> cmd = ''sh run'' then
        Inr (t, l\<lparr>response := getRunningConfig X t\<rparr>)
      else if matchCmd cmd ''show vlan brief'' \<or> cmd = ''sh vlan br'' \<or> cmd = ''sh vlan'' then
        Inr (snd (getVlanBrief X t), l\<lparr>response := fst (getVlanBrief X t)\<rparr>)
      else if matchCmd cmd ''show ip interface brief'' \<or> cmd = ''sh ip int br'' then
        Inr (t, l\<lparr>response := getDynamicIpIntBrief X t\<rparr>)
      else if matchCmd cmd ''reload'' then
        Inl (t\<lparr>isBooting := True, output_t := [], reloadTimers := Suc (reloadTimers t)\<rparr>)
      else if firstToken = ''vlan'' then
        Inr (t, l\<lparr>response := ''% Incomplete command. Use '' @ dquote @ ''configure terminal''
                                @ dquote @ '' first.''\<rparr>)
      else if cmd \<noteq> ''exit'' then Inr (t, l\<lparr>response := ''% Unknown command''\<rparr>)
      else Inr (t, l))"

text \<open>
  Global configuration, \<open>state.mode === '(config)#'\<close>. The interface name is normalised
  by \<open>replace(/^g[a-z]*/i, 'GigabitEthernet')\<close>, resp. \<open>f\<close> and \<open>FastEthernet\<close>.
\<close>

definition isLetter :: "char \<Rightarrow> bool" where
  "isLetter c = (c \<in> set ''abcdefghijklmnopqrstuvwxyzABCDEFGHIJKLMNOPQRSTUVWXYZ'')"

definition normalizeInterface :: "string \<Rightarrow> string" where
  "normalizeInterface intName =
     (if startsWith (toLowerCase intName) ''g''
        then ''GigabitEthernet'' @ dropWhile isLetter (tl intName)
      else if startsWith (toLowerCase intName) ''f''
        then ''FastEthernet'' @ dropWhile isLetter (tl intName)
      else intName)"

text \<open>\<open>`VLAN${vid.toString().padStart(4, '0')}`\<close>, for an id of the exact range.\<close>

definition defaultVlanName :: "int \<Rightarrow> string" where
  "defaultVlanName vid = ''VLAN'' @ padStart 4 (CHR ''0'') (toString vid)"

text \<open>\<open>n.data.vlanDb || {1: 'default'}\<close>\<close>

definition vlanTable :: "NetworkNode \<Rightarrow> (int \<rightharpoonup> string)" where
  "vlanTable n = (case vlanDb (data n) of None \<Rightarrow> [1 \<mapsto> ''default''] | Some db \<Rightarrow> db)"

definition createVlan :: "int \<Rightarrow> NetworkNode \<Rightarrow> NetworkNode" where
  "createVlan vid n =
     (let db0 = vlanTable n;
          db1 = (if \<not> truthy (db0 vid) then db0(vid \<mapsto> defaultVlanName vid) else db0)
      in n\<lparr>data := (data n)\<lparr>vlanDb := Some db1\<rparr>\<rparr>)"

definition cmdVlan :: "Terminal \<Rightarrow> string list \<Rightarrow> Locals \<Rightarrow> Terminal \<times> Locals" where
  "cmdVlan t tokens l =
     (if \<not> (case getNode t of None \<Rightarrow> False
             | Some n \<Rightarrow> includes_s (DeviceType_str (type (data n))) ''SWITCH'')
      then (t, l\<lparr>response := ''% Command rejected: Device does not support VLANs.''\<rparr>)
      else (case parseInt_opt (nth_opt tokens 1) of
              Some vid \<Rightarrow>
                (t\<lparr>contextVlan := vid,
                   nodes := map (\<lambda>n. if Some (node_id n) = nodeId (state t)
                                       then createVlan vid n else n) (nodes t)\<rparr>,
                 l\<lparr>newMode := VlanConfig\<rparr>)
            | None \<Rightarrow> (t, l\<lparr>response := ''% Invalid input detected at marker.''\<rparr>)))"

definition globalConfig ::
  "Terminal \<Rightarrow> string \<Rightarrow> string list \<Rightarrow> string \<Rightarrow> Locals \<Rightarrow> Terminal \<times> Locals" where
  "globalConfig t cmd tokens firstToken l =
     (if matchCmd cmd ''hostname'' then
        (if truthy (nth_opt tokens 1) then
           (t\<lparr>nodes := map (\<lambda>n. if Some (node_id n) = nodeId (state t)
                                  then n\<lparr>data := (data n)\<lparr>hostname := Some (tokens ! 1),
                                                             label := tokens ! 1\<rparr>\<rparr>
                                  else n) (nodes t)\<rparr>,
            l\<lparr>newHostname := tokens ! 1\<rparr>)
         else (t, l))
      else if matchCmd cmd ''interface'' then
        (if truthy (nth_opt tokens 1) then
           (t\<lparr>contextInt := normalizeInterface (tokens ! 1),
              nodes := map (\<lambda>n. if Some (node_id n) = nodeId (state t)
                                  then ensureInterface n (normalizeInterface (tokens ! 1))
                                  else n) (nodes t)\<rparr>,
            l\<lparr>newMode := InterfaceConfig\<rparr>)
         else (t, l\<lparr>response := ''% Incomplete command.''\<rparr>))
      else if firstToken = ''vlan'' then cmdVlan t tokens l
      else if matchCmd cmd ''ip routing'' then
        (t\<lparr>nodes := map (\<lambda>n. if Some (node_id n) = nodeId (state t)
                               then n\<lparr>data := (data n)\<lparr>ipRouting := Some True\<rparr>\<rparr>
                               else n) (nodes t)\<rparr>, l)
      else if cmd \<noteq> ''exit'' then (t, l\<lparr>response := ''% Invalid input detected at marker.''\<rparr>)
      else (t, l))"

text \<open>
  Interface configuration, \<open>state.mode === '(config-if)#'\<close>. The VLAN propagation of
  \<open>switchport access vlan\<close>: \<open>contextInt.match(/\d+$/)\<close> is the run of digits that ends
  the interface name; one less than its value indexes the sorted links of the bound device.
  (An array has fewer than \<open>2^32\<close> elements, so an index beyond the exact range of the
  numbers finds no link, in the code as here.)
\<close>

definition trailingDigits :: "string \<Rightarrow> string" where
  "trailingDigits s = rev (takeWhile isDigit (rev s))"

definition targetEdge :: "Externals \<Rightarrow> Terminal \<Rightarrow> Edge option" where
  "targetEdge X t =
     (if trailingDigits (contextInt t) = [] then None
      else (let portIdx = int (digitsValue 10 (trailingDigits (contextInt t))) - 1
            in if 0 \<le> portIdx
               then nth_opt (getSortedEdges X t (nodeId (state t))) (nat portIdx)
               else None))"

definition neighborOf :: "Terminal \<Rightarrow> Edge \<Rightarrow> string" where
  "neighborOf t e = (if Some (source e) = nodeId (state t) then target e else source e)"

definition isEndHost :: "NetworkNode \<Rightarrow> bool" where
  "isEndHost n = (type (data n) = PC \<or> type (data n) = PRINTER \<or> type (data n) = SERVER)"

text \<open>\<open>cmd.split(' ').pop() || '1'\<close>\<close>

definition lastArgument :: "string \<Rightarrow> string" where
  "lastArgument cmd =
     (let lastPart = last (split_char (CHR '' '') cmd)
      in if lastPart = [] then ''1'' else lastPart)"

text \<open>The callback of the propagating \<open>setNodes\<close>.\<close>

definition assignVlanTo :: "string \<Rightarrow> int \<Rightarrow> NetworkNode \<Rightarrow> NetworkNode" where
  "assignVlanTo neighborId vid n =
     (if node_id n = neighborId \<and> isEndHost n
      then n\<lparr>data := (data n)\<lparr>assignedVlan := Some vid\<rparr>\<rparr> else n)"

definition cmdAccessVlan ::
  "Externals \<Rightarrow> Terminal \<Rightarrow> string \<Rightarrow> Locals \<Rightarrow> Terminal \<times> Locals" where
  "cmdAccessVlan X t cmd l =
     (case parseInt (lastArgument cmd) of
        None \<Rightarrow> (t, l)
      | Some vid \<Rightarrow>
          (let nds1 = updateInt t (\<lambda>c. c\<lparr>accessVlan := Some vid\<rparr>) (nodes t)
           in case targetEdge X t of
                None \<Rightarrow> (t\<lparr>nodes := nds1\<rparr>, l)
              | Some e \<Rightarrow>
                  (t\<lparr>nodes := map (assignVlanTo (neighborOf t e) vid) nds1\<rparr>,
                   l\<lparr>response := ''[Sim]: Assigned neighbor device on '' @ contextInt t
                                  @ '' to VLAN '' @ toString vid\<rparr>)))"

text \<open>
  Both node updates of the branch put together, as one function of a node: \<open>eo\<close> is the
  link found for the current interface, if any.
\<close>

definition propagateVlan :: "Terminal \<Rightarrow> Edge option \<Rightarrow> int \<Rightarrow> NetworkNode \<Rightarrow> NetworkNode" where
  "propagateVlan t eo vid n =
     (case eo of None \<Rightarrow> n | Some e \<Rightarrow> assignVlanTo (neighborOf t e) vid n)"

definition interfaceConfig ::
  "Externals \<Rightarrow> Terminal \<Rightarrow> string \<Rightarrow> Locals \<Rightarrow> Terminal \<times> Locals" where
  "interfaceConfig X t cmd l =
     (if matchCmd cmd ''shutdown'' \<or> cmd = ''shut'' then
        (t\<lparr>nodes := updateInt t (\<lambda>c. c\<lparr>shutdown := True\<rparr>) (nodes t)\<rparr>,
         l\<lparr>response := ''%LINK-5-CHANGED: Interface '' @ contextInt t
                        @ '', changed state to administratively down''\<rparr>)
      else if matchCmd cmd ''no shutdown'' \<or> cmd = ''no shut'' then
        (t\<lparr>nodes := updateInt t (\<lambda>c. c\<lparr>shutdown := False\<rparr>) (nodes t)\<rparr>,
         l\<lparr>response := ''%LINK-3-UPDOWN: Interface '' @ contextInt t
                        @ '', changed state to up''\<rparr>)
      else if matchCmd cmd ''switchport mode'' then
        (t\<lparr>nodes := updateInt t
             (\<lambda>c. c\<lparr>switchportMode := Some (if includes_s cmd ''trunk'' then trunk else access)\<rparr>)
             (nodes t)\<rparr>, l)
      else if matchCmd cmd ''switchport access vlan'' then cmdAccessVlan X t cmd l
      else if matchCmd cmd ''switchport trunk allowed vlan'' then
        (if truthy (map_option trim (nth_opt (split_str ''vlan'' cmd) 1)) then
           (t\<lparr>nodes := updateInt t
                (\<lambda>c. c\<lparr>trunkAllowedVlans := Some (trim (split_str ''vlan'' cmd ! 1))\<rparr>)
                (nodes t)\<rparr>, l)
         else (t, l))
      else if matchCmd cmd ''ip address'' then
        (if 4 \<le> length (split_char (CHR '' '') cmd) then
           (t\<lparr>nodes := updateInt t
                (\<lambda>c. c\<lparr>ip_if := Some (split_char (CHR '' '') cmd ! 2),
                        mask := Some (split_char (CHR '' '') cmd ! 3)\<rparr>)
                (nodes t)\<rparr>, l)
         else (t, l\<lparr>response := ''% Incomplete command.''\<rparr>))
      else if cmd \<noteq> ''exit'' then (t, l\<lparr>response := ''% Invalid input detected at marker.''\<rparr>)
      else (t, l))"

text \<open>VLAN configuration, \<open>state.mode === '(config-vlan)#'\<close>.\<close>

definition vlanConfig ::
  "Terminal \<Rightarrow> string \<Rightarrow> string list \<Rightarrow> string \<Rightarrow> Locals \<Rightarrow> Terminal \<times> Locals" where
  "vlanConfig t cmd tokens firstToken l =
     (if matchCmd cmd ''name'' then
        (if truthy (nth_opt tokens 1) then
           (t\<lparr>nodes := map (\<lambda>n. if Some (node_id n) = nodeId (state t) \<and> vlanDb (data n) \<noteq> None
                                  then n\<lparr>data := (data n)\<lparr>vlanDb :=
                                         Some ((the (vlanDb (data n)))(contextVlan t \<mapsto> tokens ! 1))\<rparr>\<rparr>
                                  else n) (nodes t)\<rparr>, l)
         else (t, l))
      else if firstToken = ''vlan'' \<or> parseInt firstToken \<noteq> None then
        (t, l\<lparr>response := ''% Invalid input. Type '' @ dquote @ ''exit'' @ dquote
                           @ '' to return to global config mode first.''\<rparr>)
      else if cmd \<noteq> ''exit'' then (t, l\<lparr>response := ''% Invalid input detected at marker.''\<rparr>)
      else (t, l))"

subsection \<open>handleCommand\<close>

text \<open>
  The cascade of \<open>handleCommand\<close> after the empty line has been dealt with. \<open>Inl\<close> is a
  \<open>return\<close> from inside the cascade (\<open>clear\<close>, \<open>cls\<close>, \<open>reload\<close>).
\<close>

definition dispatch ::
  "Externals \<Rightarrow> Terminal \<Rightarrow> string \<Rightarrow> string list \<Rightarrow> string \<Rightarrow> Locals
     \<Rightarrow> Terminal + Terminal \<times> Locals" where
  "dispatch X t cmd tokens firstToken l =
     (if cmd = ''exit'' then Inr (cmdExit t l)
      else if cmd = ''end'' then Inr (cmdEnd t l)
      else if cmd = ''?'' \<or> cmd = ''help'' then Inr (t, l\<lparr>response := getHelp (mode (state t))\<rparr>)
      else if cmd = ''clear'' \<or> cmd = ''cls'' then Inl (t\<lparr>output_t := []\<rparr>)
      else if firstToken = ''do'' then Inr (cmdDo X t cmd l)
      else (case mode (state t) of
              UserExec \<Rightarrow> Inr (userExec t cmd tokens l)
            | PrivilegedExec \<Rightarrow> privilegedExec X t cmd firstToken l
            | GlobalConfig \<Rightarrow> Inr (globalConfig t cmd tokens firstToken l)
            | InterfaceConfig \<Rightarrow> Inr (interfaceConfig X t cmd l)
            | VlanConfig \<Rightarrow> Inr (vlanConfig t cmd tokens firstToken l)
            | LineConfig \<Rightarrow> Inr (t, l)))"

text \<open>
  The end of \<open>handleCommand\<close>: \<open>onClose\<close> when the session is to close, otherwise
  \<open>appendOutput(response)\<close>, \<open>onUpdateState\<close>, \<open>setInput('')\<close> and, for a response that starts
  with \<open>%\<close>, the request to the advisory service. \<open>state\<close> is still the state the command
  started in.
\<close>

definition appendOutput :: "Terminal \<Rightarrow> string \<Rightarrow> string \<Rightarrow> string list" where
  "appendOutput t cmdRaw txt =
     filter (\<lambda>line. line \<noteq> [])
       (output_t t @ [hostname_t (state t) @ Mode_str (mode (state t)) @ '' '' @ cmdRaw]
        @ split_char (CHR 0x0A) txt)"

definition finish :: "Terminal \<Rightarrow> string \<Rightarrow> string list \<Rightarrow> Locals \<Rightarrow> Terminal" where
  "finish t cmdRaw newHistory l =
     (if shouldClose l then t\<lparr>state := (state t)\<lparr>isOpen := False\<rparr>\<rparr>
      else t\<lparr>output_t := appendOutput t cmdRaw (response l),
             state := (state t)\<lparr>mode := newMode l, hostname_t := newHostname l,
                                history := newHistory\<rparr>,
             input := [],
             fixRequests := (if startsWith (response l) ''%''
                             then fixRequests t @ [(cmdRaw, response l)]
                             else fixRequests t)\<rparr>)"

text \<open>
  The values \<open>handleCommand\<close> computes first: the trimmed line \<open>cmd\<close>, its \<open>tokens\<close>,
  the lower-cased \<open>firstToken\<close>, the history to store \<open>newHistory\<close>, and the initial locals.
\<close>

definition typedCmd :: "Terminal \<Rightarrow> string" where
  "typedCmd t = trim (input t)"

definition typedTokens :: "Terminal \<Rightarrow> string list" where
  "typedTokens t = split_ws (typedCmd t)"

definition typedFirstToken :: "Terminal \<Rightarrow> string" where
  "typedFirstToken t = toLowerCase (hd (typedTokens t))"

definition newHistoryOf :: "Terminal \<Rightarrow> string list" where
  "newHistoryOf t = filter (\<lambda>c. c \<noteq> []) (history (state t) @ [input t])"

definition initialLocals :: "Terminal \<Rightarrow> Locals" where
  "initialLocals t =
     \<lparr>response = [], newMode = mode (state t), newHostname = hostname_t (state t),
      shouldClose = False\<rparr>"

definition handleCommand :: "Externals \<Rightarrow> Terminal \<Rightarrow> Terminal" where
  "handleCommand X t0 =
     (let t = t0\<lparr>historyIdx := - 1\<rparr>
      in if typedCmd t0 = [] then
           t\<lparr>output_t := output_t t @ [hostname_t (state t) @ Mode_str (mode (state t))]\<rparr>
         else (case dispatch X t (typedCmd t0) (typedTokens t0) (typedFirstToken t0)
                      (initialLocals t0) of
                 Inl t' \<Rightarrow> t'
               | Inr (t', l') \<Rightarrow> finish t' (input t0) (newHistoryOf t0) l'))"

subsection \<open>History recall (handleKeyDown)\<close>




section \<open>The specification's wording of an address\<close>

text \<open>
  The specification describes a valid address as four dot-separated groups of 1 to 3
  digits; \<open>dottedQuad\<close> says exactly that, independently of the regular expression.
\<close>

definition octet :: "string \<Rightarrow> bool" where
  "octet g = (1 \<le> length g \<and> length g \<le> 3 \<and> list_all isDigit g)"

definition dottedQuad :: "string \<Rightarrow> bool" where
  "dottedQuad s = (let groups = split_char (CHR ''.'') s
                   in length groups = 4 \<and> list_all octet groups)"


section \<open>Example topologies\<close>

text \<open>A device with the given identifier (also its label), kind, address and status, and a link.\<close>

definition device :: "string \<Rightarrow> DeviceType \<Rightarrow> string option \<Rightarrow> Status \<Rightarrow> NetworkNode" where
  "device i t a s = \<lparr>node_id = i, data = \<lparr>label = i, type = t, ip = a, mac = None, status = s,
     floor_d = None, isVulnerable = None, hostname = None, domainName = None, ipRouting = None,
     vlanDb = None, interfaces = None, lines = None, assignedVlan = None, config = None\<rparr>\<rparr>"

definition link :: "string \<Rightarrow> string \<Rightarrow> string \<Rightarrow> Edge" where
  "link i s t = \<lparr>edge_id = i, source = s, target = t\<rparr>"


text \<open>
  Externals for the worked examples: collation by character code (which is what
  \<open>localeCompare\<close> gives on the lower-case letters and digits used in the examples'
  link identifiers) and fixed listing texts; and a session bound to a device.
\<close>

fun asciiCompare :: "string \<Rightarrow> string \<Rightarrow> int" where
  "asciiCompare [] [] = 0"
| "asciiCompare [] (y # ys) = - 1"
| "asciiCompare (x # xs) [] = 1"
| "asciiCompare (x # xs) (y # ys) =
     (if (of_char x :: nat) < of_char y then - 1
      else if (of_char y :: nat) < of_char x then 1
      else asciiCompare xs ys)"

definition plainExternals :: Externals where
  "plainExternals = \<lparr>localeCompare = asciiCompare, runningConfigText = (\<lambda>n. ''running-config''),
     vlanBriefText = (\<lambda>n. ''vlan brief''), ipIntBriefText = (\<lambda>n es. ''ip interface brief'')\<rparr>"

definition session :: "string \<Rightarrow> Mode \<Rightarrow> NetworkNode list \<Rightarrow> Edge list \<Rightarrow> Terminal" where
  "session i m ns es =
     \<lparr>state = \<lparr>isOpen = True, nodeId = Some i, history = [], hostname_t = ''Switch'', mode = m\<rparr>,
      nodes = ns, edges = es, input = [], output_t = [], contextInt = [], contextVlan = 0,
      contextLine = [], isBooting = False, historyIdx = - 1, reloadTimers = 0, fixRequests = []\<rparr>"

text \<open>
  A switch \<open>S\<close> with one configured interface, linked to a PC \<open>P\<close> (link \<open>e1\<close>) and
  to a router \<open>R\<close> (link \<open>e2\<close>); sessions bound to one of these devices.
\<close>

definition switchWithPort :: NetworkNode where
  "switchWithPort = ensureInterface (device ''S'' SWITCH_L2 None up) ''GigabitEthernet0/1''"

definition portSession :: "string \<Rightarrow> string \<Rightarrow> Terminal" where
  "portSession port line =
     (session ''S'' InterfaceConfig
        [switchWithPort, device ''P'' PC (Some ''10.0.0.5'') up, device ''R'' ROUTER None up]
        [link ''e2'' ''S'' ''R'', link ''e1'' ''P'' ''S''])
     \<lparr>input := line, contextInt := port\<rparr>"


definition sessionWith :: "string \<Rightarrow> Mode \<Rightarrow> string list \<Rightarrow> string \<Rightarrow> Terminal" where
  "sessionWith i m h line =
     (session i m
        [device ''S'' SWITCH_L2 None up, device ''P'' PC (Some ''10.0.0.5'') up,
         device ''R'' ROUTER None up]
        [link ''e2'' ''S'' ''R'', link ''e1'' ''P'' ''S''])
     \<lparr>input := line,
       state := \<lparr>isOpen = True, nodeId = Some i, history = h, hostname_t = ''Switch'', mode = m\<rparr>\<rparr>"

lemmas example_simps = device_def link_def buildAdjacency_def addEdge_def adj_has_def adj_push_def
  neighborsOf_def visitNeighbor_def isDownAt_def isRouterAt_def Let_def


section \<open>Facts about the string built-ins and the matcher\<close>

lemmas match_simps = matchCmd_def matchLoop.simps split_ws_def isSpace_def toLowerCase_def
  toLowerCase_char_def trim_def startsWith_def


lemma isSpace_upper: "c \<in> set ''ABCDEFGHIJKLMNOPQRSTUVWXYZ'' \<Longrightarrow> \<not> isSpace c"
  by (auto simp: isSpace_def)

lemma isSpace_lower: "c \<in> set ''abcdefghijklmnopqrstuvwxyz'' \<Longrightarrow> \<not> isSpace c"
  by (auto simp: isSpace_def)

lemma isSpace_toLowerCase_char: "isSpace (toLowerCase_char c) = isSpace c"
proof (cases "map_of (zip ''ABCDEFGHIJKLMNOPQRSTUVWXYZ'' ''abcdefghijklmnopqrstuvwxyz'') c")
  case None
  then show ?thesis by (simp add: toLowerCase_char_def)
next
  case (Some l)
  then have "(c, l) \<in> set (zip ''ABCDEFGHIJKLMNOPQRSTUVWXYZ'' ''abcdefghijklmnopqrstuvwxyz'')"
    by (rule map_of_SomeD)
  then have "c \<in> set ''ABCDEFGHIJKLMNOPQRSTUVWXYZ''" "l \<in> set ''abcdefghijklmnopqrstuvwxyz''"
    by (auto dest: set_zip_leftD set_zip_rightD)
  then have "\<not> isSpace c" "\<not> isSpace l" by (simp_all only: isSpace_upper isSpace_lower not_False_eq_True)
  then show ?thesis using Some by (simp add: toLowerCase_char_def)
qed

lemma split_ws_from_toLowerCase:
  "split_ws_from (toLowerCase cur) inGap (toLowerCase s)
   = map toLowerCase (split_ws_from cur inGap s)"
proof (induction s arbitrary: cur inGap)
  case Nil
  then show ?case by (simp add: toLowerCase_def rev_map)
next
  case (Cons c cs)
  have e: "toLowerCase [] = []" "\<And>x xs. toLowerCase (x # xs) = toLowerCase_char x # toLowerCase xs"
    by (simp_all add: toLowerCase_def)
  show ?case
    using Cons [of "[]" True] Cons [of "c # cur" False]
    by (simp add: e isSpace_toLowerCase_char) (simp add: toLowerCase_def rev_map)
qed

lemma split_ws_toLowerCase: "split_ws (toLowerCase s) = map toLowerCase (split_ws s)"
  using split_ws_from_toLowerCase [of "[]" False s] by (simp add: split_ws_def toLowerCase_def)

lemma trim_trim: "trim (trim s) = trim s"
proof -
  define u where "u = dropWhile isSpace s"
  define v where "v = dropWhile isSpace (rev u)"
  have u: "u = [] \<or> \<not> isSpace (hd u)" unfolding u_def by (metis hd_dropWhile)
  have v: "v = [] \<or> \<not> isSpace (hd v)" unfolding v_def by (metis hd_dropWhile)
  have tr: "trim s = rev v" by (simp add: trim_def u_def v_def)
  have "rev v = [] \<or> \<not> isSpace (hd (rev v))"
  proof (cases "v = []")
    case True
    then show ?thesis by simp
  next
    case False
    then have "u \<noteq> []" unfolding v_def by auto
    obtain ws where ws: "rev u = ws @ v" unfolding v_def
      by (metis takeWhile_dropWhile_id)
    then have "u = rev v @ rev ws" by (metis rev_append rev_rev_ident)
    then have "hd u = hd (rev v)" using False by simp
    then show ?thesis using u \<open>u \<noteq> []\<close> by simp
  qed
  then have 1: "dropWhile isSpace (rev v) = rev v" by (simp add: dropWhile_eq_self_iff)
  have 2: "dropWhile isSpace v = v" using v by (simp add: dropWhile_eq_self_iff)
  show ?thesis unfolding tr by (simp add: trim_def 1 2)
qed

lemma matchLoop_iff:
  "matchLoop inputParts targetParts i \<longleftrightarrow>
   (\<forall>j. i \<le> j \<and> j < length targetParts \<longrightarrow>
        j < length inputParts \<and> inputParts ! j \<noteq> [] \<and> prefix (inputParts ! j) (targetParts ! j))"
proof (induction inputParts targetParts i rule: matchLoop.induct)
  case (1 inputParts targetParts i)
  show ?case
  proof (cases "i < length targetParts")
    case False
    then show ?thesis by (subst matchLoop.simps) auto
  next
    case True
    show ?thesis
    proof (cases "i < length inputParts \<and> inputParts ! i \<noteq> []
                  \<and> prefix (inputParts ! i) (targetParts ! i)")
      case False
      then have "\<not> matchLoop inputParts targetParts i"
        using True by (subst matchLoop.simps) (auto simp: startsWith_def)
      moreover have "\<not> (\<forall>j. i \<le> j \<and> j < length targetParts \<longrightarrow>
        j < length inputParts \<and> inputParts ! j \<noteq> [] \<and> prefix (inputParts ! j) (targetParts ! j))"
        using True False by blast
      ultimately show ?thesis by blast
    next
      case ok: True
      then have "matchLoop inputParts targetParts i = matchLoop inputParts targetParts (Suc i)"
        using True by (subst matchLoop.simps) (simp add: startsWith_def)
      also have "\<dots> \<longleftrightarrow> (\<forall>j. Suc i \<le> j \<and> j < length targetParts \<longrightarrow>
        j < length inputParts \<and> inputParts ! j \<noteq> [] \<and> prefix (inputParts ! j) (targetParts ! j))"
        using "1.IH" True ok by (simp add: startsWith_def)
      also have "\<dots> \<longleftrightarrow> (\<forall>j. i \<le> j \<and> j < length targetParts \<longrightarrow>
        j < length inputParts \<and> inputParts ! j \<noteq> [] \<and> prefix (inputParts ! j) (targetParts ! j))"
        (is "?L = ?R")
      proof
        assume L: ?L
        show ?R
        proof (intro allI impI)
          fix j
          assume j: "i \<le> j \<and> j < length targetParts"
          show "j < length inputParts \<and> inputParts ! j \<noteq> []
                \<and> prefix (inputParts ! j) (targetParts ! j)"
          proof (cases "j = i")
            case True
            then show ?thesis using ok by simp
          next
            case False
            then have "Suc i \<le> j \<and> j < length targetParts" using j by simp
            with L show ?thesis by blast
          qed
        qed
      next
        assume ?R
        then show ?L by (simp add: Suc_le_eq)
      qed
      finally show ?thesis .
    qed
  qed
qed

lemma split_ws_from_nonempty: "split_ws_from cur inGap s \<noteq> []"
  by (induction s arbitrary: cur inGap) auto

lemma split_ws_nonempty: "split_ws s \<noteq> []"
  by (simp add: split_ws_def split_ws_from_nonempty)

lemma matchCmd_iff:
  "matchCmd inputStr targetCmd \<longleftrightarrow>
   (\<forall>j<length (split_ws (toLowerCase targetCmd)).
        j < length (split_ws (toLowerCase (trim inputStr)))
        \<and> split_ws (toLowerCase (trim inputStr)) ! j \<noteq> []
        \<and> prefix (split_ws (toLowerCase (trim inputStr)) ! j)
                  (split_ws (toLowerCase targetCmd) ! j))"
proof (cases "inputStr = []")
  case False
  then show ?thesis by (simp add: matchCmd_def matchLoop_iff)
next
  case True
  have "split_ws (toLowerCase (trim [])) = ['''']"
    by (simp add: trim_def toLowerCase_def split_ws_def)
  moreover have "0 < length (split_ws (toLowerCase targetCmd))"
    using split_ws_nonempty by blast
  ultimately show ?thesis using True by (auto simp: matchCmd_def)
qed



section \<open>Facts about the interpreter\<close>

subsection \<open>Which branch a line reaches\<close>

lemma typedTokens_nonempty: "typedTokens t \<noteq> []"
  by (simp add: typedTokens_def split_ws_nonempty)

lemma typedFirstToken_nth: "typedFirstToken t = toLowerCase (typedTokens t ! 0)"
  using typedTokens_nonempty [of t] by (simp add: typedFirstToken_def hd_conv_nth)

lemma matchCmd_typedD:
  assumes "matchCmd (typedCmd t) targetCmd" and "j < length (split_ws (toLowerCase targetCmd))"
  shows "j < length (typedTokens t) \<and> typedTokens t ! j \<noteq> []
         \<and> prefix (toLowerCase (typedTokens t ! j)) (split_ws (toLowerCase targetCmd) ! j)"
proof -
  have tok: "split_ws (toLowerCase (trim (typedCmd t))) = map toLowerCase (typedTokens t)"
    by (simp add: typedCmd_def typedTokens_def trim_trim split_ws_toLowerCase)
  from assms have "j < length (map toLowerCase (typedTokens t))
      \<and> map toLowerCase (typedTokens t) ! j \<noteq> []
      \<and> prefix (map toLowerCase (typedTokens t) ! j) (split_ws (toLowerCase targetCmd) ! j)"
    unfolding matchCmd_iff tok by blast
  then show ?thesis by (auto simp: toLowerCase_def)
qed

lemma matchCmd_first:
  assumes "matchCmd (typedCmd t) targetCmd"
  shows "typedFirstToken t \<noteq> []
         \<and> prefix (typedFirstToken t) (split_ws (toLowerCase targetCmd) ! 0)"
proof -
  have "0 < length (split_ws (toLowerCase targetCmd))" using split_ws_nonempty by blast
  from matchCmd_typedD [OF assms this] show ?thesis
    by (simp add: typedFirstToken_nth toLowerCase_def)
qed

lemma prefix_hd: "p \<noteq> [] \<Longrightarrow> prefix p s \<Longrightarrow> hd p = hd s"
  by (cases p; cases s) auto

lemma matchCmd_two:
  assumes "matchCmd (typedCmd t) a" and "matchCmd (typedCmd t) b"
    and "j < length (split_ws (toLowerCase a))" and "j < length (split_ws (toLowerCase b))"
  shows "hd (split_ws (toLowerCase a) ! j) = hd (split_ws (toLowerCase b) ! j)"
proof -
  from matchCmd_typedD [OF assms(1,3)] matchCmd_typedD [OF assms(2,4)]
  have ne: "toLowerCase (typedTokens t ! j) \<noteq> []"
    and pa: "prefix (toLowerCase (typedTokens t ! j)) (split_ws (toLowerCase a) ! j)"
    and pb: "prefix (toLowerCase (typedTokens t ! j)) (split_ws (toLowerCase b) ! j)"
    by (simp_all add: toLowerCase_def)
  from prefix_hd [OF ne pa] prefix_hd [OF ne pb] show ?thesis by simp
qed

lemma tokens_of_targets:
  "split_ws (toLowerCase ''switchport access vlan'') = [''switchport'', ''access'', ''vlan'']"
  "split_ws (toLowerCase ''shutdown'') = [''shutdown'']"
  "split_ws (toLowerCase ''no shutdown'') = [''no'', ''shutdown'']"
  "split_ws (toLowerCase ''switchport mode'') = [''switchport'', ''mode'']"
  "split_ws (toLowerCase ''hostname'') = [''hostname'']"
  "split_ws (toLowerCase ''interface'') = [''interface'']"
  "split_ws (toLowerCase ''reload'') = [''reload'']"
  by code_simp+

lemma accessVlan_literals:
  "\<not> matchCmd ''exit'' ''switchport access vlan''"
  "\<not> matchCmd ''end'' ''switchport access vlan''"
  "\<not> matchCmd ''?'' ''switchport access vlan''"
  "\<not> matchCmd ''help'' ''switchport access vlan''"
  "\<not> matchCmd ''clear'' ''switchport access vlan''"
  "\<not> matchCmd ''cls'' ''switchport access vlan''"
  "\<not> matchCmd ''shut'' ''switchport access vlan''"
  "\<not> matchCmd ''no shut'' ''switchport access vlan''"
  by code_simp+

lemma accessVlan_not_others:
  assumes "matchCmd (typedCmd t) ''switchport access vlan''"
  shows "typedCmd t \<noteq> []" "typedCmd t \<noteq> ''exit''" "typedCmd t \<noteq> ''end''"
    "typedCmd t \<noteq> ''?''" "typedCmd t \<noteq> ''help''" "typedCmd t \<noteq> ''clear''"
    "typedCmd t \<noteq> ''cls''" "typedFirstToken t \<noteq> ''do''" "typedCmd t \<noteq> ''shut''"
    "\<not> matchCmd (typedCmd t) ''no shutdown''" "typedCmd t \<noteq> ''no shut''"
    "\<not> matchCmd (typedCmd t) ''switchport mode''"
proof -
  show "typedCmd t \<noteq> []" using assms by (auto simp: matchCmd_def)
  show "typedCmd t \<noteq> ''exit''" using assms accessVlan_literals by metis
  show "typedCmd t \<noteq> ''end''" using assms accessVlan_literals by metis
  show "typedCmd t \<noteq> ''?''" using assms accessVlan_literals by metis
  show "typedCmd t \<noteq> ''help''" using assms accessVlan_literals by metis
  show "typedCmd t \<noteq> ''clear''" using assms accessVlan_literals by metis
  show "typedCmd t \<noteq> ''cls''" using assms accessVlan_literals by metis
  show "typedCmd t \<noteq> ''shut''" using assms accessVlan_literals by metis
  show "typedCmd t \<noteq> ''no shut''" using assms accessVlan_literals by metis
  show "typedFirstToken t \<noteq> ''do''"
    using matchCmd_first [OF assms] by (auto simp: tokens_of_targets)
  show "\<not> matchCmd (typedCmd t) ''no shutdown''"
    using matchCmd_two [OF assms, of "''no shutdown''" 0] by (auto simp: tokens_of_targets)
  show "\<not> matchCmd (typedCmd t) ''switchport mode''"
    using matchCmd_two [OF assms, of "''switchport mode''" 1] by (auto simp: tokens_of_targets)
qed

lemma reaches_cmdAccessVlan:
  assumes "mode (state t) = InterfaceConfig"
    and "matchCmd (typedCmd t) ''switchport access vlan''"
    and "\<not> matchCmd (typedCmd t) ''shutdown''"
  shows "handleCommand X t =
         finish (fst (cmdAccessVlan X (t\<lparr>historyIdx := - 1\<rparr>) (typedCmd t) (initialLocals t)))
           (input t) (newHistoryOf t)
           (snd (cmdAccessVlan X (t\<lparr>historyIdx := - 1\<rparr>) (typedCmd t) (initialLocals t)))"
  using assms accessVlan_not_others [OF assms(2)]
  by (simp add: handleCommand_def dispatch_def interfaceConfig_def Let_def split: prod.splits)

lemma includes_SWITCH:
  "includes_s (DeviceType_str ty) ''SWITCH'' \<longleftrightarrow> ty = SWITCH_L2 \<or> ty = SWITCH_L3"
  by (cases ty) simp_all

lemma first_token_literals:
  "toLowerCase (hd (split_ws ''exit'')) = ''exit''"
  "toLowerCase (hd (split_ws ''end'')) = ''end''"
  "toLowerCase (hd (split_ws ''?'')) = ''?''"
  "toLowerCase (hd (split_ws ''help'')) = ''help''"
  "toLowerCase (hd (split_ws ''clear'')) = ''clear''"
  "toLowerCase (hd (split_ws ''cls'')) = ''cls''"
  "toLowerCase (hd (split_ws [])) = []"
  by code_simp+

lemma vlan_not_others:
  assumes "typedFirstToken t = ''vlan''"
  shows "typedCmd t \<noteq> []" "typedCmd t \<noteq> ''exit''" "typedCmd t \<noteq> ''end''"
    "typedCmd t \<noteq> ''?''" "typedCmd t \<noteq> ''help''" "typedCmd t \<noteq> ''clear''"
    "typedCmd t \<noteq> ''cls''" "typedFirstToken t \<noteq> ''do''"
    "\<not> matchCmd (typedCmd t) ''hostname''" "\<not> matchCmd (typedCmd t) ''interface''"
proof -
  have ft: "typedFirstToken t = toLowerCase (hd (split_ws (typedCmd t)))"
    by (simp add: typedFirstToken_def typedTokens_def)
  show "typedCmd t \<noteq> []" using assms first_token_literals unfolding ft by auto
  show "typedCmd t \<noteq> ''exit''" using assms first_token_literals unfolding ft by auto
  show "typedCmd t \<noteq> ''end''" using assms first_token_literals unfolding ft by auto
  show "typedCmd t \<noteq> ''?''" using assms first_token_literals unfolding ft by auto
  show "typedCmd t \<noteq> ''help''" using assms first_token_literals unfolding ft by auto
  show "typedCmd t \<noteq> ''clear''" using assms first_token_literals unfolding ft by auto
  show "typedCmd t \<noteq> ''cls''" using assms first_token_literals unfolding ft by auto
  show "typedFirstToken t \<noteq> ''do''" using assms by simp
  show "\<not> matchCmd (typedCmd t) ''hostname''"
    using matchCmd_first [of t "''hostname''"] assms by (auto simp: tokens_of_targets)
  show "\<not> matchCmd (typedCmd t) ''interface''"
    using matchCmd_first [of t "''interface''"] assms by (auto simp: tokens_of_targets)
qed

lemma reaches_cmdVlan:
  assumes "mode (state t) = GlobalConfig" and "typedFirstToken t = ''vlan''"
  shows "handleCommand X t =
         finish (fst (cmdVlan (t\<lparr>historyIdx := - 1\<rparr>) (typedTokens t) (initialLocals t)))
           (input t) (newHistoryOf t)
           (snd (cmdVlan (t\<lparr>historyIdx := - 1\<rparr>) (typedTokens t) (initialLocals t)))"
  using assms vlan_not_others [OF assms(2)]
  by (simp add: handleCommand_def dispatch_def globalConfig_def Let_def split: prod.splits)

lemma getNode_historyIdx: "getNode (t\<lparr>historyIdx := x\<rparr>) = getNode t"
  by (simp add: getNode_def)

lemma createVlan_new:
  assumes "vlanTable m vid = None \<or> vlanTable m vid = Some []"
  shows "createVlan vid m =
         m\<lparr>data := (data m)\<lparr>vlanDb := Some ((vlanTable m)(vid \<mapsto> defaultVlanName vid))\<rparr>\<rparr>"
  using assms by (auto simp add: createVlan_def Let_def truthy_def)

lemma createVlan_existing:
  assumes "vlanTable m vid = Some nm" and "nm \<noteq> []"
  shows "createVlan vid m = m\<lparr>data := (data m)\<lparr>vlanDb := Some (vlanTable m)\<rparr>\<rparr>"
  using assms by (simp add: createVlan_def Let_def truthy_def)

lemma defaultVlanName_10: "defaultVlanName 10 = ''VLAN0010''"
  by code_simp

lemma defaultVlanName_nonneg:
  "0 \<le> vid \<Longrightarrow> defaultVlanName vid =
     ''VLAN'' @ replicate (4 - length (show_nat (nat vid))) (CHR ''0'') @ show_nat (nat vid)"
  by (simp add: defaultVlanName_def padStart_def toString_def)

lemma length_show_nat: "n < 10000 \<Longrightarrow> length (show_nat n) \<le> 4"
proof -
  assume n: "n < 10000"
  have 1: "m < 10 \<Longrightarrow> length (show_nat m) = 1" for m
    by (subst show_nat.simps) simp
  have 2: "m < 100 \<Longrightarrow> length (show_nat m) \<le> 2" for m
    using 1 [of "m div 10"] 1 [of m] by (subst show_nat.simps) auto
  have 3: "m < 1000 \<Longrightarrow> length (show_nat m) \<le> 3" for m
    using 2 [of "m div 10"] 1 [of m] by (subst show_nat.simps) auto
  show ?thesis
    using 3 [of "n div 10"] 1 [of n] n by (subst show_nat.simps) auto
qed
















subsection \<open>What the branches do\<close>

lemma digitOf_isDigit: "digitOf 10 c \<noteq> None \<longleftrightarrow> isDigit c"
  by (simp add: digitOf_def isDigit_def)

lemma parseInt_no_number:
  assumes "s \<noteq> []" and "\<not> isDigit (hd s)" and "hd s \<noteq> CHR ''+''" and "hd s \<noteq> CHR ''-''"
    and "\<not> isSpace (hd s)"
  shows "parseInt s = None"
proof -
  obtain c cs where s: "s = c # cs" using assms(1) by (cases s) auto
  have c: "\<not> isDigit c" "c \<noteq> CHR ''+''" "c \<noteq> CHR ''-''" "\<not> isSpace c"
    using assms s by simp_all
  have "c \<noteq> CHR ''0''" using c(1) by (auto simp: isDigit_def)
  moreover have "digitOf 10 c = None" using c(1) digitOf_isDigit [of c] by blast
  ultimately show ?thesis using c
    by (simp add: s parseInt_def Let_def)
qed

lemma finish_plain:
  "finish t cmdRaw h \<lparr>response = [], newMode = m, newHostname = hn, shouldClose = False\<rparr>
   = t\<lparr>output_t := appendOutput t cmdRaw [],
        state := (state t)\<lparr>mode := m, hostname_t := hn, history := h\<rparr>,
        input := []\<rparr>"
  by (simp add: finish_def startsWith_def)


lemma finish_fields:
  "\<not> shouldClose l \<Longrightarrow> mode (state (finish t c h l)) = newMode l"
  "\<not> shouldClose l \<Longrightarrow> history (state (finish t c h l)) = h"
  "\<not> shouldClose l \<Longrightarrow> output_t (finish t c h l) = appendOutput t c (response l)"
  "\<not> shouldClose l \<Longrightarrow> fixRequests (finish t c h l) =
     (if startsWith (response l) ''%'' then fixRequests t @ [(c, response l)] else fixRequests t)"
  "contextVlan (finish t c h l) = contextVlan t"
  "contextInt (finish t c h l) = contextInt t"
  by (simp_all add: finish_def)

lemma appendOutput_historyIdx: "appendOutput (t\<lparr>historyIdx := x\<rparr>) c r = appendOutput t c r"
  by (simp add: appendOutput_def)


lemma finish_nodes: "nodes (finish t c h l) = nodes t"
  by (simp add: finish_def)

lemma historyIdx_select:
  "state (t\<lparr>historyIdx := x\<rparr>) = state t"
  "contextInt (t\<lparr>historyIdx := x\<rparr>) = contextInt t"
  "nodes (t\<lparr>historyIdx := x\<rparr>) = nodes t"
  "edges (t\<lparr>historyIdx := x\<rparr>) = edges t"
  by simp_all

lemma historyIdx_irrelevant:
  "targetEdge X (t\<lparr>historyIdx := x\<rparr>) = targetEdge X t"
  "updateInt (t\<lparr>historyIdx := x\<rparr>) f nds = updateInt t f nds"
  "neighborOf (t\<lparr>historyIdx := x\<rparr>) e = neighborOf t e"
  unfolding targetEdge_def getSortedEdges_def updateInt_def updateIntNode_def neighborOf_def
    historyIdx_select
  by (rule refl)+

lemma propagateVlan_historyIdx:
  "propagateVlan (t\<lparr>historyIdx := x\<rparr>) eo vid n = propagateVlan t eo vid n"
  unfolding propagateVlan_def historyIdx_irrelevant by (rule refl)

lemma map_propagateVlan_None: "map (propagateVlan t None vid) nds = nds"
  by (induction nds) (simp_all add: propagateVlan_def)

lemma cmdAccessVlan_nodes:
  assumes "parseInt (lastArgument cmd) = Some vid"
  shows "nodes (fst (cmdAccessVlan X t cmd l)) =
         map (propagateVlan t (targetEdge X t) vid)
             (updateInt t (\<lambda>c. c\<lparr>accessVlan := Some vid\<rparr>) (nodes t))"
proof (cases "targetEdge X t")
  case None
  then show ?thesis by (simp add: cmdAccessVlan_def assms map_propagateVlan_None)
next
  case (Some e)
  have "propagateVlan t (Some e) vid = assignVlanTo (neighborOf t e) vid"
    by (intro ext) (simp add: propagateVlan_def)
  then show ?thesis using Some by (simp add: cmdAccessVlan_def assms)
qed

lemma nodes_after_accessVlan:
  assumes "mode (state t) = InterfaceConfig"
    and "matchCmd (typedCmd t) ''switchport access vlan''"
    and "\<not> matchCmd (typedCmd t) ''shutdown''"
    and "parseInt (lastArgument (typedCmd t)) = Some vid"
  shows "nodes (handleCommand X t) =
         map (propagateVlan t (targetEdge X t) vid)
             (updateInt t (\<lambda>c. c\<lparr>accessVlan := Some vid\<rparr>) (nodes t))"
proof -
  have "propagateVlan (t\<lparr>historyIdx := - 1\<rparr>) (targetEdge X t) vid
        = propagateVlan t (targetEdge X t) vid"
    by (intro ext) (rule propagateVlan_historyIdx)
  then show ?thesis
    unfolding reaches_cmdAccessVlan [OF assms(1-3)] finish_nodes
      cmdAccessVlan_nodes [OF assms(4)] historyIdx_irrelevant historyIdx_select
    by (simp only:)
qed


lemma set_insort_by: "set (insort_by cmp x xs) = insert x (set xs)"
  by (induction xs) auto

lemma set_sort_by: "set (sort_by cmp xs) = set xs"
  by (induction xs) (simp_all add: sort_by_def set_insort_by)

lemma sorted_insort_by:
  assumes total: "\<And>a b. cmp a b \<le> 0 \<or> cmp b a \<le> 0"
    and trans: "\<And>a b c. cmp a b \<le> 0 \<Longrightarrow> cmp b c \<le> 0 \<Longrightarrow> cmp a c \<le> 0"
  shows "sorted_wrt (\<lambda>a b. cmp a b \<le> 0) xs \<Longrightarrow>
         sorted_wrt (\<lambda>a b. cmp a b \<le> 0) (insort_by cmp x xs)"
proof (induction xs)
  case Nil
  then show ?case by simp
next
  case (Cons y ys)
  show ?case
  proof (cases "cmp x y \<le> 0")
    case True
    then have "\<forall>z\<in>set ys. cmp x z \<le> 0" using Cons.prems trans by auto
    then show ?thesis using True Cons.prems by simp
  next
    case False
    then have "cmp y x \<le> 0" using total by blast
    then show ?thesis using False Cons by (auto simp: set_insort_by)
  qed
qed

lemma sorted_sort_by:
  assumes "\<And>a b. cmp a b \<le> 0 \<or> cmp b a \<le> 0"
    and "\<And>a b c. cmp a b \<le> 0 \<Longrightarrow> cmp b c \<le> 0 \<Longrightarrow> cmp a c \<le> 0"
  shows "sorted_wrt (\<lambda>a b. cmp a b \<le> 0) (sort_by cmp xs)"
proof (induction xs)
  case Nil
  then show ?case by (simp add: sort_by_def)
next
  case (Cons x xs)
  have "sort_by cmp (x # xs) = insort_by cmp x (sort_by cmp xs)" by (simp add: sort_by_def)
  then show ?case using sorted_insort_by [of cmp, OF assms Cons] by simp
qed

lemma getSortedEdges_set:
  "set (getSortedEdges X t nid) =
   {e \<in> set (edges t). Some (source e) = nid \<or> Some (target e) = nid}"
  by (simp add: getSortedEdges_def set_sort_by)

lemma getSortedEdges_sorted:
  assumes "\<forall>a b. localeCompare X a b \<le> 0 \<or> localeCompare X b a \<le> 0"
    and "\<forall>a b c. localeCompare X a b \<le> 0 \<and> localeCompare X b c \<le> 0
                   \<longrightarrow> localeCompare X a c \<le> 0"
  shows "sorted_wrt (\<lambda>a b. localeCompare X (edge_id a) (edge_id b) \<le> 0)
           (getSortedEdges X t nid)"
  unfolding getSortedEdges_def
  by (rule sorted_sort_by) (use assms in blast)+

lemma targetEdge_index:
  "targetEdge X t =
   (if trailingDigits (contextInt t) \<noteq> []
       \<and> 1 \<le> digitsValue 10 (trailingDigits (contextInt t))
    then nth_opt (getSortedEdges X t (nodeId (state t)))
           (digitsValue 10 (trailingDigits (contextInt t)) - 1)
    else None)"
proof -
  have "nat (int n - 1) = n - 1" for n :: nat by simp
  moreover have "(0 \<le> int n - 1) = (1 \<le> n)" for n :: nat by auto
  ultimately show ?thesis by (simp add: targetEdge_def Let_def)
qed

lemma neighborOf_other:
  assumes "targetEdge X t = Some e" and "source e \<noteq> target e"
  shows "Some (neighborOf t e) \<noteq> nodeId (state t)"
proof (cases "Some (source e) = nodeId (state t)")
  case True
  then have "Some (target e) \<noteq> nodeId (state t)" using assms(2) by (metis option.inject)
  then show ?thesis using True by (simp add: neighborOf_def)
next
  case False
  then show ?thesis by (simp add: neighborOf_def)
qed

lemma updateIntNode_other: "Some (node_id n) \<noteq> nodeId (state t) \<Longrightarrow> updateIntNode t f n = n"
  by (simp add: updateIntNode_def)

lemma updateIntNode_keeps:
  "node_id (updateIntNode t f n) = node_id n"
  "isEndHost (updateIntNode t f n) = isEndHost n"
  "assignedVlan (data (updateIntNode t f n)) = assignedVlan (data n)"
  by (simp_all add: updateIntNode_def isEndHost_def split: Lookup.splits)


subsection \<open>The example sessions\<close>

lemma switchWithPort_fields:
  "node_id switchWithPort = ''S''"
  "interfaceOf switchWithPort ''GigabitEthernet0/1'' = Some (defaultInterface ''GigabitEthernet0/1'')"
  "type (data switchWithPort) = SWITCH_L2"
  "interfaces (data switchWithPort) \<noteq> None"
  "lookupInterface (the (interfaces (data switchWithPort))) ''GigabitEthernet0/1''
     = Own (defaultInterface ''GigabitEthernet0/1'')"
  by (simp_all add: switchWithPort_def ensureInterface_def lookupInterface_def
      objectPrototypeNames_def device_def interfaceOf_def Let_def)



lemma portSession_fields:
  "mode (state (portSession port line)) = InterfaceConfig"
  "typedCmd (portSession port line) = trim line"
  "input (portSession port line) = line"
  "contextInt (portSession port line) = port"
  "nodeId (state (portSession port line)) = Some ''S''"
  "nodes (portSession port line) =
     [switchWithPort, device ''P'' PC (Some ''10.0.0.5'') up, device ''R'' ROUTER None up]"
  "edges (portSession port line) = [link ''e2'' ''S'' ''R'', link ''e1'' ''P'' ''S'']"
  by (simp_all add: portSession_def session_def typedCmd_def)

section \<open>Properties of the connection validator\<close>

text \<open>
  C8 (as stated, refuted at one input): the claim gives every pair outside the three special
  ones the level \<open>info\<close>. For a router linked to a PC the returned object carries no level
  at all.
\<close>

theorem validateConnection_level_counterexample:
  "level (validateConnection ROUTER PC) \<noteq> Some info"
  by (simp add: validateConnection_def)

text \<open>
  C8 (amended): for every ordered pair of device kinds the validator returns
  \<open>isValid = True\<close>; (PC, PC) has level warning, (Internet, PC) level error,
  (SwitchL2, Internet) level warning; every other ordered pair has the message
  \<open>Connection established.\<close> and no level field, which the caller's toast shows as info.
\<close>

theorem validateConnection_spec:
  "isValid (validateConnection s t)
   \<and> level (validateConnection PC PC) = Some warning
   \<and> level (validateConnection INTERNET PC) = Some error
   \<and> level (validateConnection SWITCH_L2 INTERNET) = Some warning
   \<and> ((s, t) \<notin> {(PC, PC), (INTERNET, PC), (SWITCH_L2, INTERNET)} \<longrightarrow>
        level (validateConnection s t) = None
        \<and> message_v (validateConnection s t) = ''Connection established.''
        \<and> toastType (validateConnection s t) = info)"
  by (simp add: validateConnection_def toastType_def)

theorem validateConnection_spec_witness:
  "(ROUTER, SWITCH_L2) \<notin> {(PC, PC), (INTERNET, PC), (SWITCH_L2, INTERNET)}
   \<and> level (validateConnection ROUTER SWITCH_L2) = None
   \<and> message_v (validateConnection ROUTER SWITCH_L2) = ''Connection established.''
   \<and> toastType (validateConnection ROUTER SWITCH_L2) = info"
  using validateConnection_spec [of ROUTER SWITCH_L2] by simp


section \<open>Properties of the reachability engine\<close>

subsection \<open>The address check\<close>

lemma digits13_mem:
  "r \<in> set (digits13 s) \<longleftrightarrow>
   (\<exists>k\<in>{1, 2, 3}. k \<le> length s \<and> list_all isDigit (take k s) \<and> r = drop k s)"
  unfolding digits13_def by simp blast

lemma digits13_iff: "r \<in> set (digits13 s) \<longleftrightarrow> (\<exists>g. s = g @ r \<and> octet g)"
proof
  assume "r \<in> set (digits13 s)"
  then have "\<exists>k\<in>{1, 2, 3}. k \<le> length s \<and> list_all isDigit (take k s) \<and> r = drop k s"
    by (simp only: digits13_mem)
  then obtain k where k: "k \<in> {1, 2, 3}" "k \<le> length s" "list_all isDigit (take k s)"
    "r = drop k s" by (elim bexE conjE)
  then have "s = take k s @ r \<and> octet (take k s)" by (auto simp: octet_def)
  then show "\<exists>g. s = g @ r \<and> octet g" by (rule exI)
next
  assume "\<exists>g. s = g @ r \<and> octet g"
  then obtain g where g: "s = g @ r" "octet g" by (elim exE conjE)
  then have "length g \<in> {1, 2, 3}" by (auto simp: octet_def)
  moreover have "length g \<le> length s \<and> list_all isDigit (take (length g) s)
                 \<and> r = drop (length g) s"
    using g by (simp add: octet_def)
  ultimately have "\<exists>k\<in>{1, 2, 3}. k \<le> length s \<and> list_all isDigit (take k s) \<and> r = drop k s"
    by (rule bexI [rotated])
  then show "r \<in> set (digits13 s)" by (simp only: digits13_mem)
qed

lemma dot_iff: "r \<in> set (dot s) \<longleftrightarrow> s = CHR ''.'' # r"
  by (auto simp: dot_def split: list.splits if_splits)

lemma octetDot_iff: "r \<in> set (octetDot s) \<longleftrightarrow> (\<exists>g. s = g @ CHR ''.'' # r \<and> octet g)"
  by (auto simp: octetDot_def List.bind_def digits13_iff dot_iff)

lemma ipRegex_test_iff:
  "ipRegex_test s \<longleftrightarrow>
   (\<exists>a b c d. s = a @ CHR ''.'' # b @ CHR ''.'' # c @ CHR ''.'' # d
      \<and> octet a \<and> octet b \<and> octet c \<and> octet d)"
proof -
  have "ipRegex_test s \<longleftrightarrow>
        (\<exists>r1 r2 r3. r1 \<in> set (octetDot s) \<and> r2 \<in> set (octetDot r1)
           \<and> r3 \<in> set (octetDot r2) \<and> [] \<in> set (digits13 r3))"
    by (auto simp: ipRegex_test_def List.bind_def)
  also have "\<dots> \<longleftrightarrow>
        (\<exists>r1 r2 r3. (\<exists>a. s = a @ CHR ''.'' # r1 \<and> octet a)
           \<and> (\<exists>b. r1 = b @ CHR ''.'' # r2 \<and> octet b)
           \<and> (\<exists>c. r2 = c @ CHR ''.'' # r3 \<and> octet c) \<and> octet r3)"
    by (simp only: octetDot_iff digits13_iff append_Nil2 ex_simps simp_thms)
  also have "\<dots> \<longleftrightarrow>
        (\<exists>a b c d. s = a @ CHR ''.'' # b @ CHR ''.'' # c @ CHR ''.'' # d
           \<and> octet a \<and> octet b \<and> octet c \<and> octet d)"
    by fastforce
  finally show ?thesis .
qed

lemma length4_cases: "length xs = 4 \<Longrightarrow> \<exists>a b c d. xs = [a, b, c, d]"
proof -
  assume "length xs = 4"
  then have l: "length xs = Suc (Suc (Suc (Suc 0)))" by simp
  then obtain a as where 1: "xs = a # as" "length as = Suc (Suc (Suc 0))" by (cases xs) auto
  then obtain b bs where 2: "as = b # bs" "length bs = Suc (Suc 0)" by (cases as) auto
  then obtain c cs where 3: "bs = c # cs" "length cs = Suc 0" by (cases bs) auto
  then obtain d where 4: "cs = [d]" by (cases cs) auto
  show ?thesis using 1 2 3 4 by simp
qed

lemma split_char_nonempty: "split_char sep s \<noteq> []"
  by (induction s) (auto split: list.splits)

lemma join_split_char: "join [sep] (split_char sep s) = s"
proof (induction s)
  case Nil
  then show ?case by simp
next
  case (Cons c cs)
  obtain g gs where ggs: "split_char sep cs = g # gs"
    using split_char_nonempty [of sep cs] by (cases "split_char sep cs") auto
  show ?case
  proof (cases "c = sep")
    case True
    then show ?thesis using Cons ggs by simp
  next
    case False
    then show ?thesis using Cons ggs by (cases gs) auto
  qed
qed

lemma split_char_nosep: "sep \<notin> set g \<Longrightarrow> split_char sep g = [g]"
  by (induction g) auto

lemma split_char_append:
  "sep \<notin> set g \<Longrightarrow> split_char sep (g @ sep # r) = g # split_char sep r"
  by (induction g) auto

lemma isDigit_dot: "\<not> isDigit (CHR ''.'')"
  by (simp add: isDigit_def)

lemma octet_no_dot: "octet g \<Longrightarrow> CHR ''.'' \<notin> set g"
  using isDigit_dot by (auto simp: octet_def list_all_iff)

lemma ipRegex_test_dottedQuad: "ipRegex_test s \<longleftrightarrow> dottedQuad s"
proof
  assume "ipRegex_test s"
  then obtain a b c d where s: "s = a @ CHR ''.'' # b @ CHR ''.'' # c @ CHR ''.'' # d"
    and o: "octet a" "octet b" "octet c" "octet d"
    unfolding ipRegex_test_iff by blast
  have "split_char (CHR ''.'') s = [a, b, c, d]"
    using o by (simp add: s split_char_append split_char_nosep octet_no_dot)
  then show "dottedQuad s" using o by (simp add: dottedQuad_def)
next
  assume "dottedQuad s"
  then have len: "length (split_char (CHR ''.'') s) = 4"
    and all: "list_all octet (split_char (CHR ''.'') s)"
    by (simp_all add: dottedQuad_def Let_def)
  from length4_cases [OF len] obtain a b c d where sp: "split_char (CHR ''.'') s = [a, b, c, d]"
    by blast
  have o: "octet a" "octet b" "octet c" "octet d" using all by (simp_all add: sp)
  have "s = join ''.'' (split_char (CHR ''.'') s)" by (simp add: join_split_char)
  then have "s = a @ CHR ''.'' # b @ CHR ''.'' # c @ CHR ''.'' # d" by (simp add: sp)
  then show "ipRegex_test s" using o unfolding ipRegex_test_iff by blast
qed

lemma isValidIP_iff: "isValidIP addr \<longleftrightarrow> (\<exists>s. addr = Some s \<and> dottedQuad s)"
proof (cases addr)
  case None
  then show ?thesis by (simp add: isValidIP_def)
next
  case (Some s)
  have "dottedQuad [] = False" by (simp add: dottedQuad_def)
  then have "dottedQuad s \<Longrightarrow> s \<noteq> []" by auto
  then show ?thesis using Some by (auto simp: isValidIP_def ipRegex_test_dottedQuad)
qed

text \<open>
  C4: \<open>isValidIP\<close> accepts exactly the texts made of four dot-separated groups of 1 to 3
  digits, with no range check (\<open>999.1.1.1\<close> is accepted) and an absent address is invalid.
  When both endpoints exist, an invalid source address makes \<open>findPath\<close> fail with the
  configuration error naming the source device, empty path and zero hops; otherwise an
  invalid target address makes it fail naming the target device. Both hold for every list
  of links: the checks come before the connectivity search.
\<close>

theorem findPath_ip_check:
  "(isValidIP addr \<longleftrightarrow> (\<exists>s. addr = Some s \<and> dottedQuad s))
   \<and> isValidIP (Some ''999.1.1.1'')
   \<and> (find (\<lambda>n. node_id n = startNodeId) nds = Some startNode
        \<and> find (\<lambda>n. node_id n = endNodeId) nds = Some endNode \<longrightarrow>
        (\<not> isValidIP (ip (data startNode)) \<longrightarrow>
           findPath nds eds startNodeId endNodeId =
             \<lparr>success = False, path = [], hops = 0,
              message = ''Configuration Error: Source device ('' @ label (data startNode)
                        @ '') is missing a valid IP address.''\<rparr>)
        \<and> (isValidIP (ip (data startNode)) \<and> \<not> isValidIP (ip (data endNode)) \<longrightarrow>
           findPath nds eds startNodeId endNodeId =
             \<lparr>success = False, path = [], hops = 0,
              message = ''Configuration Error: Destination device ('' @ label (data endNode)
                        @ '') is missing a valid IP address.''\<rparr>))"
proof -
  have "isValidIP (Some ''999.1.1.1'')"
    by (simp add: isValidIP_iff dottedQuad_def octet_def isDigit_def)
  then show ?thesis by (simp add: isValidIP_iff [of addr] findPath_def)
qed


theorem findPath_ip_check_witness:
  "find (\<lambda>n. node_id n = ''A'') [device ''A'' PC None up, device ''B'' PC (Some ''10.0.0.5'') up]
     = Some (device ''A'' PC None up)
   \<and> find (\<lambda>n. node_id n = ''B'') [device ''A'' PC None up, device ''B'' PC (Some ''10.0.0.5'') up]
     = Some (device ''B'' PC (Some ''10.0.0.5'') up)
   \<and> \<not> isValidIP (ip (data (device ''A'' PC None up)))
   \<and> findPath [device ''A'' PC None up, device ''B'' PC (Some ''10.0.0.5'') up]
        [link ''e1'' ''A'' ''B''] ''A'' ''B'' =
       \<lparr>success = False, path = [], hops = 0,
        message = ''Configuration Error: Source device (A) is missing a valid IP address.''\<rparr>"
  using findPath_ip_check [of None "''A''"
      "[device ''A'' PC None up, device ''B'' PC (Some ''10.0.0.5'') up]"
      "device ''A'' PC None up" "''B''" "device ''B'' PC (Some ''10.0.0.5'') up"
      "[link ''e1'' ''A'' ''B'']"]
  by (simp add: device_def isValidIP_def)


subsection \<open>Liveness of the devices on the path\<close>

lemma find_isDownAt_first:
  assumes "\<exists>i\<in>set p. isDownAt nds i"
  shows "\<exists>pre b post. p = pre @ b # post \<and> (\<forall>i\<in>set pre. \<not> isDownAt nds i)
            \<and> isDownAt nds b \<and> find (isDownAt nds) p = Some b"
proof -
  from assms obtain b where b: "find (isDownAt nds) p = Some b"
    by (cases "find (isDownAt nds) p") (auto simp: find_None_iff)
  then obtain k where k: "k < length p" "isDownAt nds (p ! k)" "b = p ! k"
    "\<forall>j<k. \<not> isDownAt nds (p ! j)"
    unfolding find_Some_iff by blast
  have "p = take k p @ b # drop (Suc k) p" using k by (simp add: id_take_nth_drop)
  moreover have "\<forall>i\<in>set (take k p). \<not> isDownAt nds i"
    using k by (auto simp: in_set_conv_nth)
  ultimately show ?thesis using k b by blast
qed

lemma find_node_id: "find (\<lambda>n. node_id n = i) nds = Some node \<Longrightarrow> node \<in> set nds \<and> node_id node = i"
  by (auto simp: find_Some_iff)


text \<open>
  For devices whose identifiers are not empty: when the search finds a path and some device
  on it is down, \<open>findPath\<close> fails with the link-failure message carrying the label of
  the first down device in path order (\<open>pre\<close> holds no down device), the path found and
  zero hops. Nothing is assumed about subnets or routers, so the check wins over the
  routing check.
\<close>

lemma findPath_first_down:
  assumes "find (\<lambda>n. node_id n = startNodeId) nds = Some startNode"
    and "find (\<lambda>n. node_id n = endNodeId) nds = Some endNode"
    and "isValidIP (ip (data startNode))" and "isValidIP (ip (data endNode))"
    and "bfs (buildAdjacency eds) endNodeId [(startNodeId, [startNodeId])] {startNodeId}
           = Some physicalPath"
    and "\<exists>i\<in>set physicalPath. isDownAt nds i"
    and "\<forall>n\<in>set nds. node_id n \<noteq> []"
  shows "\<exists>pre b post node.
           physicalPath = pre @ b # post
           \<and> (\<forall>i\<in>set pre. \<not> isDownAt nds i)
           \<and> find (\<lambda>n. node_id n = b) nds = Some node
           \<and> status (data node) = down
           \<and> findPath nds eds startNodeId endNodeId =
               \<lparr>success = False, path = physicalPath, hops = 0,
                message = ''Link Failure: Packet dropped at '' @ label (data node)
                          @ '' (Device is DOWN).''\<rparr>"
proof -
  from find_isDownAt_first [OF assms(6)] obtain pre b post where
    p: "physicalPath = pre @ b # post" "\<forall>i\<in>set pre. \<not> isDownAt nds i"
    "isDownAt nds b" "find (isDownAt nds) physicalPath = Some b" by blast
  from p(3) obtain node where node: "find (\<lambda>n. node_id n = b) nds = Some node"
    "status (data node) = down"
    by (auto simp: isDownAt_def split: option.splits)
  have "b \<noteq> []" using find_node_id [OF node(1)] assms(7) by auto
  then have "validatePath nds (the (ip (data startNode))) (the (ip (data endNode))) physicalPath
      = \<lparr>success = False, path = physicalPath, hops = 0,
         message = ''Link Failure: Packet dropped at '' @ label (data node)
                   @ '' (Device is DOWN).''\<rparr>"
    using p(4) node(1) by (simp add: validatePath_def Let_def labelAt_def)
  then have "findPath nds eds startNodeId endNodeId =
      \<lparr>success = False, path = physicalPath, hops = 0,
       message = ''Link Failure: Packet dropped at '' @ label (data node)
                 @ '' (Device is DOWN).''\<rparr>"
    using assms(1-5) by (simp add: findPath_def)
  then show ?thesis using p(1,2) node by blast
qed


lemma findPath_first_down_example:
  "bfs (buildAdjacency [link ''e1'' ''H'' ''G'', link ''e2'' ''G'' ''I'']) ''I''
       [(''H'', [''H''])] {''H''} = Some [''H'', ''G'', ''I'']
   \<and> (\<exists>i\<in>set [''H'', ''G'', ''I''].
         isDownAt [device ''H'' PC (Some ''10.0.0.5'') up, device ''G'' SWITCH_L2 None down,
                   device ''I'' PC (Some ''10.0.1.5'') up] i)
   \<and> (\<exists>pre b post node.
         [''H'', ''G'', ''I''] = pre @ b # post
         \<and> (\<forall>i\<in>set pre. \<not> isDownAt [device ''H'' PC (Some ''10.0.0.5'') up,
                 device ''G'' SWITCH_L2 None down, device ''I'' PC (Some ''10.0.1.5'') up] i)
         \<and> find (\<lambda>n. node_id n = b) [device ''H'' PC (Some ''10.0.0.5'') up,
                 device ''G'' SWITCH_L2 None down, device ''I'' PC (Some ''10.0.1.5'') up] = Some node
         \<and> status (data node) = down
         \<and> findPath [device ''H'' PC (Some ''10.0.0.5'') up, device ''G'' SWITCH_L2 None down,
                      device ''I'' PC (Some ''10.0.1.5'') up]
                     [link ''e1'' ''H'' ''G'', link ''e2'' ''G'' ''I''] ''H'' ''I'' =
               \<lparr>success = False, path = [''H'', ''G'', ''I''], hops = 0,
                message = ''Link Failure: Packet dropped at '' @ label (data node)
                          @ '' (Device is DOWN).''\<rparr>)"
proof -
  let ?nds = "[device ''H'' PC (Some ''10.0.0.5'') up, device ''G'' SWITCH_L2 None down,
                 device ''I'' PC (Some ''10.0.1.5'') up]"
  let ?eds = "[link ''e1'' ''H'' ''G'', link ''e2'' ''G'' ''I'']"
  have h1: "find (\<lambda>n. node_id n = ''H'') ?nds = Some (device ''H'' PC (Some ''10.0.0.5'') up)"
    by (simp add: device_def)
  have h2: "find (\<lambda>n. node_id n = ''I'') ?nds = Some (device ''I'' PC (Some ''10.0.1.5'') up)"
    by (simp add: device_def)
  have h3: "isValidIP (ip (data (device ''H'' PC (Some ''10.0.0.5'') up)))"
    by (simp add: device_def isValidIP_iff dottedQuad_def octet_def isDigit_def)
  have h4: "isValidIP (ip (data (device ''I'' PC (Some ''10.0.1.5'') up)))"
    by (simp add: device_def isValidIP_iff dottedQuad_def octet_def isDigit_def)
  have h5: "bfs (buildAdjacency ?eds) ''I'' [(''H'', [''H''])] {''H''} = Some [''H'', ''G'', ''I'']"
    by (simp add: example_simps)
  have h6: "\<exists>i\<in>set [''H'', ''G'', ''I'']. isDownAt ?nds i"
    by (simp add: example_simps)
  have h7: "\<forall>n\<in>set ?nds. node_id n \<noteq> []"
    by (simp add: device_def)
  from findPath_first_down [OF h1 h2 h3 h4 h5 h6 h7] h5 h6 show ?thesis by blast
qed

text \<open>
  C3 (the input at which the code departs from it): a device whose identifier is the empty
  text. The PC \<open>H\<close> is linked to a switch with the empty identifier, which is down, and
  the switch to the PC \<open>I\<close> in the same subnet. The search finds the path from \<open>H\<close> over
  the switch to \<open>I\<close>, and the first down device on it is the switch; \<open>if (brokenDevice)\<close>
  takes its empty identifier for no device found, and the call succeeds with two hops
  where a link failure naming the switch was to be reported.
\<close>

theorem findPath_down_device_empty_id:
  "bfs (buildAdjacency [link ''e1'' ''H'' '''', link ''e2'' '''' ''I'']) ''I''
       [(''H'', [''H''])] {''H''} = Some [''H'', '''', ''I'']
   \<and> find (isDownAt [device ''H'' PC (Some ''10.0.0.5'') up, device '''' SWITCH_L2 None down,
                      device ''I'' PC (Some ''10.0.0.6'') up]) [''H'', '''', ''I''] = Some ''''
   \<and> findPath [device ''H'' PC (Some ''10.0.0.5'') up, device '''' SWITCH_L2 None down,
                device ''I'' PC (Some ''10.0.0.6'') up]
               [link ''e1'' ''H'' '''', link ''e2'' '''' ''I''] ''H'' ''I'' =
         \<lparr>success = True, path = [''H'', '''', ''I''], hops = 2,
          message = ''Success! Packet delivered from 10.0.0.5 to 10.0.0.6 via 2 hops.''\<rparr>"
  by code_simp

subsection \<open>The routing requirement\<close>

text \<open>
  C2: when the search finds a path with no down device on it, then: if the subnets (first
  three groups) of the two valid addresses differ and no device on the path is a Router,
  SwitchL3 or Firewall, \<open>findPath\<close> fails with the routing error naming both subnets,
  zero hops; if some device on the path is routing-capable, or the subnets are equal, it
  succeeds with that path and one hop less than its length.
\<close>

theorem findPath_routing_check:
  assumes "find (\<lambda>n. node_id n = startNodeId) nds = Some startNode"
    and "find (\<lambda>n. node_id n = endNodeId) nds = Some endNode"
    and "ip (data startNode) = Some sourceIP" and "ip (data endNode) = Some targetIP"
    and "isValidIP (Some sourceIP)" and "isValidIP (Some targetIP)"
    and "bfs (buildAdjacency eds) endNodeId [(startNodeId, [startNodeId])] {startNodeId}
           = Some physicalPath"
    and "\<forall>i\<in>set physicalPath. \<not> isDownAt nds i"
  shows "(getSubnet sourceIP \<noteq> getSubnet targetIP
            \<and> (\<forall>i\<in>set physicalPath. \<not> isRouterAt nds i) \<longrightarrow>
          findPath nds eds startNodeId endNodeId =
            \<lparr>success = False, path = physicalPath, hops = 0,
             message = ''Routing Error: Devices are in different subnets (''
                       @ getSubnet sourceIP @ ''.x vs '' @ getSubnet targetIP
                       @ ''.x) but no Router/Gateway was found in the path.''\<rparr>)
       \<and> ((\<exists>i\<in>set physicalPath. isRouterAt nds i) \<or> getSubnet sourceIP = getSubnet targetIP \<longrightarrow>
          success (findPath nds eds startNodeId endNodeId)
          \<and> path (findPath nds eds startNodeId endNodeId) = physicalPath
          \<and> hops (findPath nds eds startNodeId endNodeId) = int (length physicalPath) - 1)"
proof -
  have nb: "find (isDownAt nds) physicalPath = None"
    using assms(8) by (simp add: find_None_iff)
  have fp: "findPath nds eds startNodeId endNodeId =
            validatePath nds sourceIP targetIP physicalPath"
    using assms(1-7) by (simp add: findPath_def)
  show ?thesis unfolding fp
    by (simp add: validatePath_def Let_def nb list_ex_iff)
qed

theorem findPath_routing_check_witness:
  "getSubnet ''10.0.0.5'' \<noteq> getSubnet ''10.0.1.5''
   \<and> \<not> list_ex (isRouterAt [device ''B'' SWITCH_L2 None up,
                   device ''C'' PC (Some ''10.0.0.5'') up,
                   device ''D'' PC (Some ''10.0.1.5'') up]) [''C'', ''B'', ''D'']
   \<and> findPath [device ''B'' SWITCH_L2 None up, device ''C'' PC (Some ''10.0.0.5'') up,
                device ''D'' PC (Some ''10.0.1.5'') up]
               [link ''e1'' ''B'' ''C'', link ''e2'' ''B'' ''D''] ''C'' ''D'' =
        \<lparr>success = False, path = [''C'', ''B'', ''D''], hops = 0,
         message = ''Routing Error: Devices are in different subnets (10.0.0.x vs 10.0.1.x) but no Router/Gateway was found in the path.''\<rparr>
   \<and> isRouterAt [device ''R'' ROUTER None up, device ''C'' PC (Some ''10.0.0.5'') up,
                  device ''D'' PC (Some ''10.0.1.5'') up] ''R''
   \<and> success (findPath [device ''R'' ROUTER None up, device ''C'' PC (Some ''10.0.0.5'') up,
                         device ''D'' PC (Some ''10.0.1.5'') up]
                        [link ''e1'' ''R'' ''C'', link ''e2'' ''R'' ''D''] ''C'' ''D'')
   \<and> hops (findPath [device ''R'' ROUTER None up, device ''C'' PC (Some ''10.0.0.5'') up,
                      device ''D'' PC (Some ''10.0.1.5'') up]
                     [link ''e1'' ''R'' ''C'', link ''e2'' ''R'' ''D''] ''C'' ''D'') = 2"
proof -
  let ?C = "device ''C'' PC (Some ''10.0.0.5'') up"
  let ?D = "device ''D'' PC (Some ''10.0.1.5'') up"
  let ?n1 = "[device ''B'' SWITCH_L2 None up, ?C, ?D]"
  let ?e1 = "[link ''e1'' ''B'' ''C'', link ''e2'' ''B'' ''D'']"
  let ?n2 = "[device ''R'' ROUTER None up, ?C, ?D]"
  let ?e2 = "[link ''e1'' ''R'' ''C'', link ''e2'' ''R'' ''D'']"
  have c1: "find (\<lambda>n. node_id n = ''C'') ?n1 = Some ?C" by (simp add: device_def)
  have d1: "find (\<lambda>n. node_id n = ''D'') ?n1 = Some ?D" by (simp add: device_def)
  have c2: "find (\<lambda>n. node_id n = ''C'') ?n2 = Some ?C" by (simp add: device_def)
  have d2: "find (\<lambda>n. node_id n = ''D'') ?n2 = Some ?D" by (simp add: device_def)
  have ic: "ip (data ?C) = Some ''10.0.0.5''" by (simp add: device_def)
  have id: "ip (data ?D) = Some ''10.0.1.5''" by (simp add: device_def)
  have vc: "isValidIP (Some ''10.0.0.5'')"
    by (simp add: isValidIP_def ipRegex_test_def octetDot_def digits13_def dot_def isDigit_def
        List.bind_def)
  have vd: "isValidIP (Some ''10.0.1.5'')"
    by (simp add: isValidIP_def ipRegex_test_def octetDot_def digits13_def dot_def isDigit_def
        List.bind_def)
  have b1: "bfs (buildAdjacency ?e1) ''D'' [(''C'', [''C''])] {''C''} = Some [''C'', ''B'', ''D'']"
    by (simp add: example_simps)
  have b2: "bfs (buildAdjacency ?e2) ''D'' [(''C'', [''C''])] {''C''} = Some [''C'', ''R'', ''D'']"
    by (simp add: example_simps)
  have u1: "\<forall>i\<in>set [''C'', ''B'', ''D'']. \<not> isDownAt ?n1 i" by (simp add: example_simps)
  have u2: "\<forall>i\<in>set [''C'', ''R'', ''D'']. \<not> isDownAt ?n2 i" by (simp add: example_simps)
  have s: "getSubnet ''10.0.0.5'' = ''10.0.0''" "getSubnet ''10.0.1.5'' = ''10.0.1''"
    by (simp_all add: getSubnet_def)
  have r1: "\<forall>i\<in>set [''C'', ''B'', ''D'']. \<not> isRouterAt ?n1 i" by (simp add: example_simps)
  have r2: "isRouterAt ?n2 ''R''" by (simp add: example_simps)
  from findPath_routing_check [OF c1 d1 ic id vc vd b1 u1]
       findPath_routing_check [OF c2 d2 ic id vc vd b2 u2] s r1 r2
  show ?thesis by simp
qed

section \<open>Properties of the command matcher\<close>

text \<open>
  C1 (amended): \<open>matchCmd\<close> accepts a typed input against a canonical command exactly
  when the typed input has a non-empty token at every position of the canonical command
  and each of these is a prefix of the canonical token there (both lower-cased). So typed
  tokens beyond the canonical ones are accepted as trailing arguments, and an input with
  fewer tokens than the canonical command never matches.
\<close>

theorem matchCmd_spec:
  "(matchCmd inputStr targetCmd \<longleftrightarrow>
      length (split_ws (toLowerCase targetCmd)) \<le> length (split_ws (toLowerCase (trim inputStr)))
      \<and> (\<forall>j<length (split_ws (toLowerCase targetCmd)).
            split_ws (toLowerCase (trim inputStr)) ! j \<noteq> []
            \<and> prefix (split_ws (toLowerCase (trim inputStr)) ! j)
                      (split_ws (toLowerCase targetCmd) ! j)))
   \<and> (length (split_ws (toLowerCase (trim inputStr))) < length (split_ws (toLowerCase targetCmd))
        \<longrightarrow> \<not> matchCmd inputStr targetCmd)"
proof -
  define ip where "ip = split_ws (toLowerCase (trim inputStr))"
  define tp where "tp = split_ws (toLowerCase targetCmd)"
  have m: "matchCmd inputStr targetCmd \<longleftrightarrow>
           (\<forall>j<length tp. j < length ip \<and> ip ! j \<noteq> [] \<and> prefix (ip ! j) (tp ! j))"
    unfolding ip_def tp_def by (rule matchCmd_iff)
  have tp: "tp \<noteq> []" unfolding tp_def by (rule split_ws_nonempty)
  have 1: "matchCmd inputStr targetCmd \<Longrightarrow> length tp \<le> length ip"
  proof (rule ccontr)
    assume mc: "matchCmd inputStr targetCmd" and "\<not> length tp \<le> length ip"
    then have "length ip < length tp" by simp
    with mc m have "length ip < length ip" by blast
    then show False by simp
  qed
  have 2: "matchCmd inputStr targetCmd \<longleftrightarrow>
           length tp \<le> length ip \<and> (\<forall>j<length tp. ip ! j \<noteq> [] \<and> prefix (ip ! j) (tp ! j))"
    using 1 m by auto
  have 3: "length ip < length tp \<longrightarrow> \<not> matchCmd inputStr targetCmd"
    using 1 by auto
  show ?thesis using 2 3 unfolding ip_def tp_def by (rule conjI)
qed

text \<open>
  C1 (as stated, refuted at one input): the single typed token \<open>sh\<close> is a prefix of the
  canonical token \<open>show\<close> at its position, and the input has fewer tokens than
  \<open>show running-config\<close>; the claim has it match, the code rejects it.
\<close>

theorem matchCmd_fewer_tokens_counterexample:
  "split_ws (toLowerCase (trim ''sh'')) = [''sh'']
   \<and> split_ws (toLowerCase ''show running-config'') = [''show'', ''running-config'']
   \<and> prefix ''sh'' ''show''
   \<and> \<not> matchCmd ''sh'' ''show running-config''"
  by (simp add: match_simps)

theorem matchCmd_spec_witness:
  "matchCmd ''sh run'' ''show running-config''
   \<and> matchCmd ''int g0/1'' ''interface''
   \<and> length (split_ws (toLowerCase (trim ''conf''))) < length (split_ws (toLowerCase ''configure terminal''))
   \<and> \<not> matchCmd ''conf'' ''configure terminal''"
proof -
  have a: "split_ws (toLowerCase (trim ''sh run'')) = [''sh'', ''run'']"
    "split_ws (toLowerCase ''show running-config'') = [''show'', ''running-config'']"
    "split_ws (toLowerCase (trim ''int g0/1'')) = [''int'', ''g0/1'']"
    "split_ws (toLowerCase ''interface'') = [''interface'']"
    "split_ws (toLowerCase (trim ''conf'')) = [''conf'']"
    "split_ws (toLowerCase ''configure terminal'') = [''configure'', ''terminal'']"
    by (simp_all add: match_simps)
  have "matchCmd ''sh run'' ''show running-config''"
    using matchCmd_spec [of "''sh run''" "''show running-config''"]
    by (simp add: a less_Suc_eq)
  moreover have "matchCmd ''int g0/1'' ''interface''"
    using matchCmd_spec [of "''int g0/1''" "''interface''"]
    by (simp add: a)
  moreover have "\<not> matchCmd ''conf'' ''configure terminal''"
    using matchCmd_spec [of "''conf''" "''configure terminal''"]
    by (simp add: a)
  ultimately show ?thesis by (simp add: a)
qed


section \<open>Properties of ensureInterface\<close>

text \<open>
  What \<open>ensureInterface\<close> does, by what the lookup of the name finds in the table (the
  empty table for a device that has none yet): nothing, and the default record is added
  under the name; or something, and the table is kept as it is.
\<close>

lemma ensureInterface_missing:
  assumes "lookupInterface (case interfaces (data node) of None \<Rightarrow> Map.empty | Some table \<Rightarrow> table)
             ifName = Missing"
  shows "ensureInterface node ifName =
        node\<lparr>data := (data node)\<lparr>interfaces :=
          Some ((case interfaces (data node) of None \<Rightarrow> Map.empty | Some table \<Rightarrow> table)
                (ifName \<mapsto> defaultInterface ifName))\<rparr>\<rparr>"
  using assms by (cases "interfaces (data node)") (simp_all add: ensureInterface_def Let_def)

lemma ensureInterface_found:
  assumes "lookupInterface (case interfaces (data node) of None \<Rightarrow> Map.empty | Some table \<Rightarrow> table)
             ifName \<noteq> Missing"
  shows "ensureInterface node ifName =
        node\<lparr>data := (data node)\<lparr>interfaces :=
          Some (case interfaces (data node) of None \<Rightarrow> Map.empty | Some table \<Rightarrow> table)\<rparr>\<rparr>"
  using assms by (cases "interfaces (data node)") (simp_all add: ensureInterface_def Let_def)

lemma ensureInterface_present:
  assumes "interfaceOf node ifName = Some c"
  shows "ensureInterface node ifName = node"
proof (cases "interfaces (data node)")
  case None
  then show ?thesis using assms by (simp add: interfaceOf_def)
next
  case (Some table)
  then have "table ifName = Some c" using assms by (simp add: interfaceOf_def)
  then show ?thesis using Some by (simp add: ensureInterface_def lookupInterface_def Let_def)
qed

lemma lookupInterface_Missing:
  "lookupInterface table ifName = Missing \<longleftrightarrow>
     table ifName = None \<and> ifName \<notin> set objectPrototypeNames"
  by (simp add: lookupInterface_def split: option.splits)

lemma ensureInterface_twice:
  "ensureInterface (ensureInterface node ifName) ifName = ensureInterface node ifName"
proof (cases "lookupInterface (case interfaces (data node) of None \<Rightarrow> Map.empty
                                | Some table \<Rightarrow> table) ifName = Missing")
  case True
  have "interfaceOf (ensureInterface node ifName) ifName = Some (defaultInterface ifName)"
    unfolding ensureInterface_missing [OF True] by (simp add: interfaceOf_def)
  then show ?thesis by (rule ensureInterface_present)
next
  case False
  have "lookupInterface
          (case interfaces (data (ensureInterface node ifName)) of None \<Rightarrow> Map.empty
           | Some table \<Rightarrow> table) ifName \<noteq> Missing"
    unfolding ensureInterface_found [OF False] using False by simp
  from ensureInterface_found [OF this] show ?thesis
    unfolding ensureInterface_found [OF False] by simp
qed

text \<open>
  For every device and every name that \<open>Object.prototype\<close> does not have, \<open>ensureInterface\<close>
  is as described: when the device holds no record under the name, the result is the device
  with exactly one record added to its interface table, under that name and with the
  defaults (shutdown false, access mode, access VLAN 1, trunk VLANs 1-4094); when the
  device already holds a record under the name, it is returned unchanged, so no field set
  earlier is reset. For every name, applying it twice is applying it once. For a name of
  \<open>Object.prototype\<close> under which the device holds no record, no record is added.
\<close>

lemma ensureInterface_by_name:
  "(interfaceOf node ifName = None \<and> ifName \<notin> set objectPrototypeNames \<longrightarrow>
      ensureInterface node ifName =
        node\<lparr>data := (data node)\<lparr>interfaces :=
          Some ((case interfaces (data node) of None \<Rightarrow> Map.empty | Some table \<Rightarrow> table)
                (ifName \<mapsto> defaultInterface ifName))\<rparr>\<rparr>)
   \<and> defaultInterface ifName =
        \<lparr>name = ifName, description = None, ip_if = None, mask = None, shutdown = False,
         switchportMode = Some access, accessVlan = Some 1,
         trunkAllowedVlans = Some ''1-4094'', nativeVlan = None\<rparr>
   \<and> (interfaceOf node ifName = Some c \<longrightarrow> ensureInterface node ifName = node)
   \<and> ensureInterface (ensureInterface node ifName) ifName = ensureInterface node ifName
   \<and> (interfaceOf node ifName = None \<and> ifName \<in> set objectPrototypeNames \<longrightarrow>
        ensureInterface node ifName =
          node\<lparr>data := (data node)\<lparr>interfaces :=
            Some (case interfaces (data node) of None \<Rightarrow> Map.empty | Some table \<Rightarrow> table)\<rparr>\<rparr>
        \<and> interfaceOf (ensureInterface node ifName) ifName = None)"
proof -
  have own: "(case interfaces (data node) of None \<Rightarrow> Map.empty | Some table \<Rightarrow> table) ifName
      = interfaceOf node ifName"
    by (simp add: interfaceOf_def split: option.splits)
  have a: "ensureInterface node ifName =
        node\<lparr>data := (data node)\<lparr>interfaces :=
          Some ((case interfaces (data node) of None \<Rightarrow> Map.empty | Some table \<Rightarrow> table)
                (ifName \<mapsto> defaultInterface ifName))\<rparr>\<rparr>"
    if "interfaceOf node ifName = None" "ifName \<notin> set objectPrototypeNames"
    using that own by (intro ensureInterface_missing) (simp add: lookupInterface_Missing)
  have b: "ensureInterface node ifName =
          node\<lparr>data := (data node)\<lparr>interfaces :=
            Some (case interfaces (data node) of None \<Rightarrow> Map.empty | Some table \<Rightarrow> table)\<rparr>\<rparr>"
    if "ifName \<in> set objectPrototypeNames"
    using that by (intro ensureInterface_found) (simp add: lookupInterface_Missing)
  have c: "interfaceOf (ensureInterface node ifName) ifName = None"
    if "interfaceOf node ifName = None" "ifName \<in> set objectPrototypeNames"
    unfolding b [OF that(2)] using that(1) own by (simp add: interfaceOf_def)
  show ?thesis
    using a b c ensureInterface_present [of node ifName c] ensureInterface_twice [of node ifName]
    by (simp add: defaultInterface_def)
qed

text \<open>
  An example of each case: a switch with no interface table gets the default record under
  \<open>GigabitEthernet0/1\<close>; a switch whose record was shut down and moved to VLAN 20 keeps it
  as it is.
\<close>

lemma ensureInterface_by_name_example:
  "interfaceOf (device ''S'' SWITCH_L2 None up) ''GigabitEthernet0/1'' = None
   \<and> ''GigabitEthernet0/1'' \<notin> set objectPrototypeNames
   \<and> interfaceOf (ensureInterface (device ''S'' SWITCH_L2 None up) ''GigabitEthernet0/1'')
        ''GigabitEthernet0/1'' = Some (defaultInterface ''GigabitEthernet0/1'')
   \<and> interfaceOf
        ((device ''S'' SWITCH_L2 None up)
           \<lparr>data := (data (device ''S'' SWITCH_L2 None up))
              \<lparr>interfaces := Some [''GigabitEthernet0/1'' \<mapsto>
                 (defaultInterface ''GigabitEthernet0/1'')\<lparr>shutdown := True, accessVlan := Some 20\<rparr>]\<rparr>\<rparr>)
        ''GigabitEthernet0/1''
      = Some ((defaultInterface ''GigabitEthernet0/1'')\<lparr>shutdown := True, accessVlan := Some 20\<rparr>)
   \<and> ensureInterface
        ((device ''S'' SWITCH_L2 None up)
           \<lparr>data := (data (device ''S'' SWITCH_L2 None up))
              \<lparr>interfaces := Some [''GigabitEthernet0/1'' \<mapsto>
                 (defaultInterface ''GigabitEthernet0/1'')\<lparr>shutdown := True, accessVlan := Some 20\<rparr>]\<rparr>\<rparr>)
        ''GigabitEthernet0/1''
      = (device ''S'' SWITCH_L2 None up)
           \<lparr>data := (data (device ''S'' SWITCH_L2 None up))
              \<lparr>interfaces := Some [''GigabitEthernet0/1'' \<mapsto>
                 (defaultInterface ''GigabitEthernet0/1'')\<lparr>shutdown := True, accessVlan := Some 20\<rparr>]\<rparr>\<rparr>"
proof -
  let ?S = "device ''S'' SWITCH_L2 None up"
  let ?g = "''GigabitEthernet0/1''"
  let ?c = "(defaultInterface ?g)\<lparr>shutdown := True, accessVlan := Some 20\<rparr>"
  let ?S2 = "?S\<lparr>data := (data ?S)\<lparr>interfaces := Some [?g \<mapsto> ?c]\<rparr>\<rparr>"
  have a: "interfaceOf ?S ?g = None" by (simp add: interfaceOf_def device_def)
  have n: "?g \<notin> set objectPrototypeNames" by (simp add: objectPrototypeNames_def)
  have b: "interfaceOf ?S2 ?g = Some ?c" by (simp add: interfaceOf_def)
  from ensureInterface_by_name [of ?S ?g] a n
  have "interfaceOf (ensureInterface ?S ?g) ?g = Some (defaultInterface ?g)"
    by (simp add: interfaceOf_def device_def)
  moreover from ensureInterface_by_name [of ?S2 ?g ?c] b
  have "ensureInterface ?S2 ?g = ?S2" by blast
  ultimately show ?thesis using a b n by blast
qed

text \<open>
  C7 (the input at which the code departs from it): the name \<open>constructor\<close>, which the
  command \<open>interface constructor\<close> passes to \<open>ensureInterface\<close>, for a switch with no
  interface table. The switch holds no record under the name, before and after:
  \<open>ensureInterface\<close> gives it an empty table and adds no record, because the lookup of the
  name in the empty table finds the member that every object inherits from
  \<open>Object.prototype\<close>. Typed in global configuration, the command enters interface
  configuration for that name and leaves the switch without a record for it.
\<close>

theorem ensureInterface_inherited_name:
  "interfaceOf (device ''S'' SWITCH_L2 None up) ''constructor'' = None
   \<and> lookupInterface Map.empty ''constructor'' = Inherited
   \<and> ensureInterface (device ''S'' SWITCH_L2 None up) ''constructor''
       = (device ''S'' SWITCH_L2 None up)
           \<lparr>data := (data (device ''S'' SWITCH_L2 None up))\<lparr>interfaces := Some Map.empty\<rparr>\<rparr>
   \<and> interfaceOf (ensureInterface (device ''S'' SWITCH_L2 None up) ''constructor'')
        ''constructor'' = None
   \<and> mode (state (handleCommand plainExternals
                     ((session ''S'' GlobalConfig [device ''S'' SWITCH_L2 None up] [])
                        \<lparr>input := ''interface constructor''\<rparr>))) = InterfaceConfig
   \<and> contextInt (handleCommand plainExternals
                    ((session ''S'' GlobalConfig [device ''S'' SWITCH_L2 None up] [])
                       \<lparr>input := ''interface constructor''\<rparr>)) = ''constructor''
   \<and> map (\<lambda>n. interfaceOf n ''constructor'')
        (nodes (handleCommand plainExternals
                  ((session ''S'' GlobalConfig [device ''S'' SWITCH_L2 None up] [])
                     \<lparr>input := ''interface constructor''\<rparr>))) = [None]"
proof -
  have a: "interfaceOf (device ''S'' SWITCH_L2 None up) ''constructor'' = None"
    by (simp add: interfaceOf_def device_def)
  have b: "lookupInterface Map.empty ''constructor'' = Inherited"
    by (simp add: lookupInterface_def objectPrototypeNames_def)
  have c: "ensureInterface (device ''S'' SWITCH_L2 None up) ''constructor''
       = (device ''S'' SWITCH_L2 None up)
           \<lparr>data := (data (device ''S'' SWITCH_L2 None up))\<lparr>interfaces := Some Map.empty\<rparr>\<rparr>"
    using b by (simp add: ensureInterface_def device_def Let_def)
  have d: "interfaceOf (ensureInterface (device ''S'' SWITCH_L2 None up) ''constructor'')
        ''constructor'' = None"
    unfolding c by (simp add: interfaceOf_def)
  have e: "mode (state (handleCommand plainExternals
                     ((session ''S'' GlobalConfig [device ''S'' SWITCH_L2 None up] [])
                        \<lparr>input := ''interface constructor''\<rparr>))) = InterfaceConfig"
    by code_simp
  have f: "contextInt (handleCommand plainExternals
                    ((session ''S'' GlobalConfig [device ''S'' SWITCH_L2 None up] [])
                       \<lparr>input := ''interface constructor''\<rparr>)) = ''constructor''"
    by code_simp
  have g: "map (\<lambda>n. interfaceOf n ''constructor'')
        (nodes (handleCommand plainExternals
                  ((session ''S'' GlobalConfig [device ''S'' SWITCH_L2 None up] [])
                     \<lparr>input := ''interface constructor''\<rparr>))) = [None]"
    by code_simp
  from a b c d e f g show ?thesis by blast
qed
section \<open>Properties of the command interpreter\<close>

subsection \<open>The command vlan in global configuration\<close>

text \<open>
  In GlobalConfig mode, for a line whose first token is \<open>vlan\<close> and a bound device \<open>n\<close>.
  If the kind of \<open>n\<close> is neither SwitchL2 nor SwitchL3, the command is rejected: the
  response is \<open>% Command rejected: Device does not support VLANs.\<close> (appended to the
  transcript and passed to the advisory service), no device changes and the mode stays
  GlobalConfig. If \<open>n\<close> is a switch and the second token parses to a number \<open>vid\<close>, the
  mode becomes VlanConfig with \<open>vid\<close> as current VLAN, and the bound device gets
  \<open>createVlan vid\<close>: when its VLAN table (VLAN 1 being \<open>default\<close> in a device that has no
  table yet) has no name for \<open>vid\<close>, that is no entry or an entry that is the empty text,
  the entry \<open>VLAN\<close> followed by the id padded with zeros to four digits is stored
  (\<open>VLAN0010\<close> for 10); when it has a name that is not empty, the table is kept as it is.
\<close>

lemma handleCommand_vlan_cases:
  assumes "mode (state t) = GlobalConfig" and "typedFirstToken t = ''vlan''"
    and "getNode t = Some n"
  shows "(type (data n) \<noteq> SWITCH_L2 \<and> type (data n) \<noteq> SWITCH_L3 \<longrightarrow>
            nodes (handleCommand X t) = nodes t
            \<and> mode (state (handleCommand X t)) = GlobalConfig
            \<and> contextVlan (handleCommand X t) = contextVlan t
            \<and> output_t (handleCommand X t) =
                appendOutput t (input t) ''% Command rejected: Device does not support VLANs.''
            \<and> fixRequests (handleCommand X t) =
                fixRequests t
                @ [(input t, ''% Command rejected: Device does not support VLANs.'')])
         \<and> ((type (data n) = SWITCH_L2 \<or> type (data n) = SWITCH_L3)
              \<and> parseInt_opt (nth_opt (typedTokens t) 1) = Some vid \<and> exactNumber vid \<longrightarrow>
            mode (state (handleCommand X t)) = VlanConfig
            \<and> contextVlan (handleCommand X t) = vid
            \<and> nodes (handleCommand X t) =
                map (\<lambda>m. if Some (node_id m) = nodeId (state t) then createVlan vid m else m)
                    (nodes t))
         \<and> (exactNumber vid \<and> (vlanTable m vid = None \<or> vlanTable m vid = Some []) \<longrightarrow>
              createVlan vid m =
                m\<lparr>data := (data m)\<lparr>vlanDb :=
                     Some ((vlanTable m)(vid \<mapsto> defaultVlanName vid))\<rparr>\<rparr>)
         \<and> (exactNumber vid \<and> vlanTable m vid = Some nm \<and> nm \<noteq> [] \<longrightarrow>
              createVlan vid m = m\<lparr>data := (data m)\<lparr>vlanDb := Some (vlanTable m)\<rparr>\<rparr>)
         \<and> defaultVlanName 10 = ''VLAN0010''
         \<and> (0 \<le> vid \<and> vid < 10000 \<longrightarrow>
              defaultVlanName vid =
                ''VLAN'' @ replicate (4 - length (show_nat (nat vid))) (CHR ''0'')
                @ show_nat (nat vid)
              \<and> length (defaultVlanName vid) = 8)"
proof -
  note h = reaches_cmdVlan [OF assms(1,2), of X]
  have rej: "nodes (handleCommand X t) = nodes t
            \<and> mode (state (handleCommand X t)) = GlobalConfig
            \<and> contextVlan (handleCommand X t) = contextVlan t
            \<and> output_t (handleCommand X t) =
                appendOutput t (input t) ''% Command rejected: Device does not support VLANs.''
            \<and> fixRequests (handleCommand X t) =
                fixRequests t
                @ [(input t, ''% Command rejected: Device does not support VLANs.'')]"
    if "type (data n) \<noteq> SWITCH_L2" "type (data n) \<noteq> SWITCH_L3"
  proof -
    have "cmdVlan (t\<lparr>historyIdx := - 1\<rparr>) (typedTokens t) (initialLocals t) =
          (t\<lparr>historyIdx := - 1\<rparr>,
           (initialLocals t)\<lparr>response := ''% Command rejected: Device does not support VLANs.''\<rparr>)"
      using that assms(3) by (simp add: cmdVlan_def getNode_historyIdx includes_SWITCH)
    then show ?thesis
      using assms(1)
      by (simp add: h finish_fields finish_nodes initialLocals_def appendOutput_historyIdx
          startsWith_def)
  qed
  have acc: "mode (state (handleCommand X t)) = VlanConfig
            \<and> contextVlan (handleCommand X t) = vid
            \<and> nodes (handleCommand X t) =
                map (\<lambda>m. if Some (node_id m) = nodeId (state t) then createVlan vid m else m)
                    (nodes t)"
    if "type (data n) = SWITCH_L2 \<or> type (data n) = SWITCH_L3"
      "parseInt_opt (nth_opt (typedTokens t) 1) = Some vid"
  proof -
    have "cmdVlan (t\<lparr>historyIdx := - 1\<rparr>) (typedTokens t) (initialLocals t) =
          (t\<lparr>historyIdx := - 1, contextVlan := vid,
             nodes := map (\<lambda>m. if Some (node_id m) = nodeId (state t)
                                 then createVlan vid m else m) (nodes t)\<rparr>,
           (initialLocals t)\<lparr>newMode := VlanConfig\<rparr>)"
      using that assms(3) by (simp add: cmdVlan_def getNode_historyIdx includes_SWITCH)
    then show ?thesis
      by (simp add: h finish_fields finish_nodes initialLocals_def)
  qed
  have len: "length (defaultVlanName vid) = 8" if "0 \<le> vid" "vid < 10000"
  proof -
    have "length (show_nat (nat vid)) \<le> 4" using that by (intro length_show_nat) simp
    then show ?thesis using that by (simp add: defaultVlanName_nonneg)
  qed
  show ?thesis
    using rej acc createVlan_new [of m vid] createVlan_existing [of m vid nm]
      defaultVlanName_10 defaultVlanName_nonneg [of vid] len
    by (intro conjI impI) blast+
qed

text \<open>
  An example of each case: \<open>vlan 10\<close> typed on a switch without a VLAN table, and on a
  router.
\<close>

lemma handleCommand_vlan_cases_example:
  "typedFirstToken (sessionWith ''S'' GlobalConfig [] ''vlan 10'') = ''vlan''
   \<and> getNode (sessionWith ''S'' GlobalConfig [] ''vlan 10'') = Some (device ''S'' SWITCH_L2 None up)
   \<and> parseInt_opt (nth_opt (typedTokens (sessionWith ''S'' GlobalConfig [] ''vlan 10'')) 1) = Some 10
   \<and> vlanTable (device ''S'' SWITCH_L2 None up) 10 = None
   \<and> mode (state (handleCommand plainExternals (sessionWith ''S'' GlobalConfig [] ''vlan 10'')))
       = VlanConfig
   \<and> contextVlan (handleCommand plainExternals (sessionWith ''S'' GlobalConfig [] ''vlan 10'')) = 10
   \<and> vlanTable (hd (nodes (handleCommand plainExternals
                              (sessionWith ''S'' GlobalConfig [] ''vlan 10'')))) 10
       = Some ''VLAN0010''
   \<and> getNode (sessionWith ''R'' GlobalConfig [] ''vlan 10'') = Some (device ''R'' ROUTER None up)
   \<and> mode (state (handleCommand plainExternals (sessionWith ''R'' GlobalConfig [] ''vlan 10'')))
       = GlobalConfig
   \<and> nodes (handleCommand plainExternals (sessionWith ''R'' GlobalConfig [] ''vlan 10''))
       = nodes (sessionWith ''R'' GlobalConfig [] ''vlan 10'')
   \<and> fixRequests (handleCommand plainExternals (sessionWith ''R'' GlobalConfig [] ''vlan 10''))
       = [(''vlan 10'', ''% Command rejected: Device does not support VLANs.'')]"
proof -
  let ?s = "sessionWith ''S'' GlobalConfig [] ''vlan 10''"
  let ?r = "sessionWith ''R'' GlobalConfig [] ''vlan 10''"
  let ?S = "device ''S'' SWITCH_L2 None up"
  let ?R = "device ''R'' ROUTER None up"
  have s: "mode (state ?s) = GlobalConfig" "typedFirstToken ?s = ''vlan''"
    "parseInt_opt (nth_opt (typedTokens ?s) 1) = Some 10"
    "nodeId (state ?s) = Some ''S''"
    by code_simp+
  have gs: "getNode ?s = Some ?S"
    by (simp add: getNode_def sessionWith_def session_def device_def)
  have ns: "nodes ?s = [?S, device ''P'' PC (Some ''10.0.0.5'') up, ?R]"
    by (simp add: sessionWith_def session_def)
  have r: "mode (state ?r) = GlobalConfig" "typedFirstToken ?r = ''vlan''"
    "fixRequests ?r = []" "input ?r = ''vlan 10''"
    by code_simp+
  have gr: "getNode ?r = Some ?R"
    by (simp add: getNode_def sessionWith_def session_def device_def)
  have ty: "type (data ?S) = SWITCH_L2" "type (data ?R) = ROUTER" "node_id ?S = ''S''"
    by (simp_all add: device_def)
  have vt: "vlanTable ?S 10 = None" by (simp add: vlanTable_def device_def)
  have ex: "exactNumber 10" by (simp add: exactNumber_def)
  note A = handleCommand_vlan_cases [OF s(1,2) gs, of plainExternals 10 ?S "[]"]
  note B = handleCommand_vlan_cases [OF r(1,2) gr, of plainExternals 10 ?S "[]"]
  have a1: "mode (state (handleCommand plainExternals ?s)) = VlanConfig"
    "contextVlan (handleCommand plainExternals ?s) = 10"
    "nodes (handleCommand plainExternals ?s) =
       map (\<lambda>m. if Some (node_id m) = nodeId (state ?s) then createVlan 10 m else m) (nodes ?s)"
    using A ty s(3) ex by simp_all
  have a2: "createVlan 10 ?S =
            ?S\<lparr>data := (data ?S)\<lparr>vlanDb := Some ((vlanTable ?S)(10 \<mapsto> defaultVlanName 10))\<rparr>\<rparr>"
    "defaultVlanName 10 = ''VLAN0010''"
    using A vt ex by simp_all
  have "hd (nodes (handleCommand plainExternals ?s)) = createVlan 10 ?S"
    by (simp add: a1(3) ns s(4) ty)
  then have a3: "vlanTable (hd (nodes (handleCommand plainExternals ?s))) 10 = Some ''VLAN0010''"
    by (simp add: a2 vlanTable_def)
  have b1: "mode (state (handleCommand plainExternals ?r)) = GlobalConfig"
    "nodes (handleCommand plainExternals ?r) = nodes ?r"
    "fixRequests (handleCommand plainExternals ?r)
       = [(''vlan 10'', ''% Command rejected: Device does not support VLANs.'')]"
    using B ty r(3,4) by simp_all
  show ?thesis using s(2,3) gs vt a1(1,2) a3 gr b1 by blast
qed


text \<open>
  C5 (the input at which the code departs from it): a switch whose VLAN table holds an
  entry for VLAN 10 with the empty text as its name. \<open>vlan 10\<close>, typed in global
  configuration, enters VLAN configuration, and \<open>!vlanDb[vid]\<close> takes the empty name for
  no entry: the name of the existing entry is overwritten with \<open>VLAN0010\<close>.
\<close>

theorem handleCommand_vlan_empty_name:
  "map (\<lambda>n. map_option (\<lambda>db. db 10) (vlanDb (data n)))
       (nodes ((session ''S'' GlobalConfig
                  [(device ''S'' SWITCH_L2 None up)
                     \<lparr>data := (data (device ''S'' SWITCH_L2 None up))
                        \<lparr>vlanDb := Some [10 \<mapsto> '''']\<rparr>\<rparr>] [])
               \<lparr>input := ''vlan 10''\<rparr>))
     = [Some (Some '''')]
   \<and> mode (state (handleCommand plainExternals
         ((session ''S'' GlobalConfig
             [(device ''S'' SWITCH_L2 None up)
                \<lparr>data := (data (device ''S'' SWITCH_L2 None up))
                   \<lparr>vlanDb := Some [10 \<mapsto> '''']\<rparr>\<rparr>] [])
          \<lparr>input := ''vlan 10''\<rparr>))) = VlanConfig
   \<and> map (\<lambda>n. map_option (\<lambda>db. db 10) (vlanDb (data n)))
       (nodes (handleCommand plainExternals
         ((session ''S'' GlobalConfig
             [(device ''S'' SWITCH_L2 None up)
                \<lparr>data := (data (device ''S'' SWITCH_L2 None up))
                   \<lparr>vlanDb := Some [10 \<mapsto> '''']\<rparr>\<rparr>] [])
          \<lparr>input := ''vlan 10''\<rparr>)))
     = [Some (Some ''VLAN0010'')]"
  by code_simp

subsection \<open>VLAN propagation of switchport access vlan\<close>

text \<open>
  C6: when \<open>switchport access vlan\<close> runs in InterfaceConfig mode with a number \<open>vid\<close>
  (the line matches the command, is not taken by the earlier \<open>shutdown\<close> test, and its
  last argument parses to \<open>vid\<close>, a number of the exact range): the link used is the one
  at the 1-based position given by the digits that end the current interface name, in the
  links incident to the bound device, sorted by identifier with the platform's collation.
  If that link exists, every device carrying the identifier of its far end that is a PC,
  Printer or Server gets the display VLAN tag \<open>vid\<close> and (the link not being a loop on the
  bound device) nothing else of it changes; a far-end device of any other kind is left
  exactly as it was.
\<close>

theorem handleCommand_accessVlan_propagation:
  assumes "mode (state t) = InterfaceConfig"
    and "matchCmd (typedCmd t) ''switchport access vlan''"
    and "\<not> matchCmd (typedCmd t) ''shutdown''"
    and "parseInt (lastArgument (typedCmd t)) = Some vid"
    and "exactNumber vid"
  shows "targetEdge X t =
           (if trailingDigits (contextInt t) \<noteq> []
               \<and> 1 \<le> digitsValue 10 (trailingDigits (contextInt t))
            then nth_opt (getSortedEdges X t (nodeId (state t)))
                   (digitsValue 10 (trailingDigits (contextInt t)) - 1)
            else None)
         \<and> set (getSortedEdges X t (nodeId (state t))) =
             {e \<in> set (edges t). Some (source e) = nodeId (state t)
                                  \<or> Some (target e) = nodeId (state t)}
         \<and> ((\<forall>a b. localeCompare X a b \<le> 0 \<or> localeCompare X b a \<le> 0)
              \<and> (\<forall>a b c. localeCompare X a b \<le> 0 \<and> localeCompare X b c \<le> 0
                          \<longrightarrow> localeCompare X a c \<le> 0)
             \<longrightarrow> sorted_wrt (\<lambda>a b. localeCompare X (edge_id a) (edge_id b) \<le> 0)
                   (getSortedEdges X t (nodeId (state t))))
         \<and> length (nodes (handleCommand X t)) = length (nodes t)
         \<and> (\<forall>e i. targetEdge X t = Some e \<and> i < length (nodes t)
                   \<and> node_id (nodes t ! i) = neighborOf t e \<longrightarrow>
               (isEndHost (nodes t ! i) \<longrightarrow>
                  assignedVlan (data (nodes (handleCommand X t) ! i)) = Some vid)
               \<and> (isEndHost (nodes t ! i) \<and> source e \<noteq> target e \<longrightarrow>
                  nodes (handleCommand X t) ! i =
                    (nodes t ! i)\<lparr>data := (data (nodes t ! i))\<lparr>assignedVlan := Some vid\<rparr>\<rparr>)
               \<and> (\<not> isEndHost (nodes t ! i) \<and> source e \<noteq> target e \<longrightarrow>
                  nodes (handleCommand X t) ! i = nodes t ! i))"
proof -
  note after = nodes_after_accessVlan [OF assms(1-4), of X]
  have len: "length (nodes (handleCommand X t)) = length (nodes t)"
    by (simp add: after updateInt_def)
  have el: "nodes (handleCommand X t) ! i =
            propagateVlan t (targetEdge X t) vid
              (updateIntNode t (\<lambda>c. c\<lparr>accessVlan := Some vid\<rparr>) (nodes t ! i))"
    if "i < length (nodes t)" for i
    using that by (simp add: after updateInt_def)
  have eff: "(isEndHost (nodes t ! i) \<longrightarrow>
                  assignedVlan (data (nodes (handleCommand X t) ! i)) = Some vid)
               \<and> (isEndHost (nodes t ! i) \<and> source e \<noteq> target e \<longrightarrow>
                  nodes (handleCommand X t) ! i =
                    (nodes t ! i)\<lparr>data := (data (nodes t ! i))\<lparr>assignedVlan := Some vid\<rparr>\<rparr>)
               \<and> (\<not> isEndHost (nodes t ! i) \<and> source e \<noteq> target e \<longrightarrow>
                  nodes (handleCommand X t) ! i = nodes t ! i)"
    if e: "targetEdge X t = Some e" and i: "i < length (nodes t)"
      and nb: "node_id (nodes t ! i) = neighborOf t e" for e i
  proof -
    let ?n = "nodes t ! i"
    let ?u = "updateIntNode t (\<lambda>c. c\<lparr>accessVlan := Some vid\<rparr>) ?n"
    have n2: "nodes (handleCommand X t) ! i = assignVlanTo (neighborOf t e) vid ?u"
      by (simp add: el [OF i] e propagateVlan_def)
    have 1: "isEndHost ?n \<Longrightarrow> assignedVlan (data (nodes (handleCommand X t) ! i)) = Some vid"
      by (simp add: n2 assignVlanTo_def updateIntNode_keeps nb)
    have other: "source e \<noteq> target e \<Longrightarrow> ?u = ?n"
      using neighborOf_other [OF e] nb by (simp add: updateIntNode_other)
    have 2: "isEndHost ?n \<Longrightarrow> source e \<noteq> target e \<Longrightarrow>
             nodes (handleCommand X t) ! i = ?n\<lparr>data := (data ?n)\<lparr>assignedVlan := Some vid\<rparr>\<rparr>"
      by (simp add: n2 other assignVlanTo_def nb)
    have 3: "\<not> isEndHost ?n \<Longrightarrow> source e \<noteq> target e \<Longrightarrow> nodes (handleCommand X t) ! i = ?n"
      by (simp add: n2 other assignVlanTo_def)
    from 1 2 3 show ?thesis by blast
  qed
  show ?thesis
    using targetEdge_index [of X t] getSortedEdges_set [of X t "nodeId (state t)"]
      getSortedEdges_sorted [of X t "nodeId (state t)"] len eff
    by (intro conjI allI impI) blast+
qed

theorem handleCommand_accessVlan_propagation_witness:
  "matchCmd (typedCmd (portSession ''GigabitEthernet0/1'' ''switchport access vlan 10''))
     ''switchport access vlan''
   \<and> parseInt (lastArgument (typedCmd (portSession ''GigabitEthernet0/1''
        ''switchport access vlan 10''))) = Some 10
   \<and> exactNumber 10
   \<and> targetEdge plainExternals (portSession ''GigabitEthernet0/1'' ''switchport access vlan 10'')
       = Some (link ''e1'' ''P'' ''S'')
   \<and> nodes (handleCommand plainExternals
              (portSession ''GigabitEthernet0/1'' ''switchport access vlan 10'')) ! 1
       = (device ''P'' PC (Some ''10.0.0.5'') up)
           \<lparr>data := (data (device ''P'' PC (Some ''10.0.0.5'') up))\<lparr>assignedVlan := Some 10\<rparr>\<rparr>
   \<and> targetEdge plainExternals (portSession ''GigabitEthernet0/2'' ''switchport access vlan 10'')
       = Some (link ''e2'' ''S'' ''R'')
   \<and> nodes (handleCommand plainExternals
              (portSession ''GigabitEthernet0/2'' ''switchport access vlan 10'')) ! 2
       = device ''R'' ROUTER None up"
proof -
  let ?t1 = "portSession ''GigabitEthernet0/1'' ''switchport access vlan 10''"
  let ?t2 = "portSession ''GigabitEthernet0/2'' ''switchport access vlan 10''"
  have tr: "trim ''switchport access vlan 10'' = ''switchport access vlan 10''" by code_simp
  have c: "typedCmd (portSession port ''switchport access vlan 10'') = ''switchport access vlan 10''"
    for port by (simp only: portSession_fields tr)
  have m: "matchCmd (typedCmd (portSession port ''switchport access vlan 10''))
             ''switchport access vlan''" for port
    unfolding c by code_simp
  have ns: "\<not> matchCmd (typedCmd (portSession port ''switchport access vlan 10'')) ''shutdown''"
    for port unfolding c by code_simp
  have p: "parseInt (lastArgument (typedCmd (portSession port ''switchport access vlan 10'')))
           = Some 10" for port
    unfolding c by code_simp
  have ex: "exactNumber 10" by (simp add: exactNumber_def)
  have e1: "targetEdge plainExternals ?t1 = Some (link ''e1'' ''P'' ''S'')"
    by code_simp
  have e2: "targetEdge plainExternals ?t2 = Some (link ''e2'' ''S'' ''R'')"
    by code_simp
  have n1: "neighborOf ?t1 (link ''e1'' ''P'' ''S'') = ''P''"
    by (simp add: neighborOf_def portSession_fields link_def)
  have n2: "neighborOf ?t2 (link ''e2'' ''S'' ''R'') = ''R''"
    by (simp add: neighborOf_def portSession_fields link_def)
  have h1: "isEndHost (device ''P'' PC (Some ''10.0.0.5'') up)"
    "node_id (device ''P'' PC (Some ''10.0.0.5'') up) = ''P''"
    "\<not> isEndHost (device ''R'' ROUTER None up)"
    "node_id (device ''R'' ROUTER None up) = ''R''"
    "source (link ''e1'' ''P'' ''S'') \<noteq> target (link ''e1'' ''P'' ''S'')"
    "source (link ''e2'' ''S'' ''R'') \<noteq> target (link ''e2'' ''S'' ''R'')"
    by (simp_all add: isEndHost_def device_def link_def)
  note P1 = handleCommand_accessVlan_propagation
      [OF portSession_fields(1) m ns p ex, where port1 = "''GigabitEthernet0/1''"
        and X = plainExternals, THEN conjunct2, THEN conjunct2, THEN conjunct2,
        THEN conjunct2, rule_format]
  note P2 = handleCommand_accessVlan_propagation
      [OF portSession_fields(1) m ns p ex, where port1 = "''GigabitEthernet0/2''"
        and X = plainExternals, THEN conjunct2, THEN conjunct2, THEN conjunct2,
        THEN conjunct2, rule_format]
  have pre1: "targetEdge plainExternals ?t1 = Some (link ''e1'' ''P'' ''S'')
      \<and> 1 < length (nodes ?t1)
      \<and> node_id (nodes ?t1 ! 1) = neighborOf ?t1 (link ''e1'' ''P'' ''S'')"
    by (simp add: e1 n1 portSession_fields h1)
  have pre2: "targetEdge plainExternals ?t2 = Some (link ''e2'' ''S'' ''R'')
      \<and> 2 < length (nodes ?t2)
      \<and> node_id (nodes ?t2 ! 2) = neighborOf ?t2 (link ''e2'' ''S'' ''R'')"
    by (simp add: e2 n2 portSession_fields h1)
  have k1: "isEndHost (nodes ?t1 ! 1)"
    "nodes ?t1 ! 1 = device ''P'' PC (Some ''10.0.0.5'') up"
    by (simp_all add: portSession_fields h1)
  have k2: "\<not> isEndHost (nodes ?t2 ! 2)"
    "nodes ?t2 ! 2 = device ''R'' ROUTER None up"
    by (simp_all add: portSession_fields h1)
  from P1 [OF pre1] k1(1) h1(5)
  have "nodes (handleCommand plainExternals ?t1) ! 1
        = (nodes ?t1 ! 1)\<lparr>data := (data (nodes ?t1 ! 1))\<lparr>assignedVlan := Some 10\<rparr>\<rparr>"
    by blast
  then have r1: "nodes (handleCommand plainExternals ?t1) ! 1
       = (device ''P'' PC (Some ''10.0.0.5'') up)
           \<lparr>data := (data (device ''P'' PC (Some ''10.0.0.5'') up))\<lparr>assignedVlan := Some 10\<rparr>\<rparr>"
    by (simp only: k1(2))
  from P2 [OF pre2] k2(1) h1(6)
  have "nodes (handleCommand plainExternals ?t2) ! 2 = nodes ?t2 ! 2" by blast
  then have r2: "nodes (handleCommand plainExternals ?t2) ! 2 = device ''R'' ROUTER None up"
    by (simp only: k2(2))
  show ?thesis using m p ex e1 e2 r1 r2 by blast
qed

subsection \<open>The command history\<close>






subsection \<open>switchport access vlan without a number\<close>

text \<open>
  C10 (as stated, refuted at one input): the final token \<open>-5\<close> does not begin with a
  digit, yet \<open>parseInt\<close> reads it as a number and the access VLAN of the current interface
  of the bound device changes from 1 to -5.
\<close>

theorem handleCommand_accessVlan_sign_counterexample:
  "mode (state (portSession ''GigabitEthernet0/1'' ''switchport access vlan -5'')) = InterfaceConfig
   \<and> matchCmd (typedCmd (portSession ''GigabitEthernet0/1'' ''switchport access vlan -5'')) ''switchport access vlan''
   \<and> lastArgument (typedCmd (portSession ''GigabitEthernet0/1'' ''switchport access vlan -5'')) = ''-5''
   \<and> \<not> isDigit (hd ''-5'')
   \<and> map_option accessVlan
        (interfaceOf (hd (nodes (portSession ''GigabitEthernet0/1'' ''switchport access vlan -5''))) ''GigabitEthernet0/1'')
       = Some (Some 1)
   \<and> map_option accessVlan
        (interfaceOf (hd (nodes (handleCommand plainExternals
            (portSession ''GigabitEthernet0/1'' ''switchport access vlan -5'')))) ''GigabitEthernet0/1'')
       = Some (Some (- 5))"
proof -
  let ?t = "portSession ''GigabitEthernet0/1'' ''switchport access vlan -5''"
  let ?g = "''GigabitEthernet0/1''"
  have "trim ''switchport access vlan -5'' = ''switchport access vlan -5''" by code_simp
  then have c: "typedCmd ?t = ''switchport access vlan -5''"
    by (simp only: portSession_fields)
  have m: "matchCmd (typedCmd ?t) ''switchport access vlan''"
    unfolding c by code_simp
  have ns: "\<not> matchCmd (typedCmd ?t) ''shutdown''"
    unfolding c by code_simp
  have la: "lastArgument (typedCmd ?t) = ''-5''"
    unfolding c by code_simp
  have p: "parseInt (lastArgument (typedCmd ?t)) = Some (- 5)"
    unfolding la by code_simp
  define s' where "s' = switchWithPort\<lparr>data := (data switchWithPort)\<lparr>interfaces :=
      Some ((the (interfaces (data switchWithPort)))
        (?g \<mapsto> (defaultInterface ?g)\<lparr>accessVlan := Some (- 5)\<rparr>))\<rparr>\<rparr>"
  have u: "hd (updateInt ?t (\<lambda>c. c\<lparr>accessVlan := Some (- 5)\<rparr>) (nodes ?t)) = s'"
    by (simp add: updateInt_def updateIntNode_def portSession_fields switchWithPort_fields s'_def)
  have ne: "updateInt ?t (\<lambda>c. c\<lparr>accessVlan := Some (- 5)\<rparr>) (nodes ?t) \<noteq> []"
    by (simp add: updateInt_def portSession_fields)
  have nh: "\<not> isEndHost s'"
    by (simp add: isEndHost_def s'_def switchWithPort_fields)
  have "hd (nodes (handleCommand plainExternals ?t)) = s'"
    unfolding nodes_after_accessVlan [OF portSession_fields(1) m ns p]
    using ne u nh by (simp add: hd_map propagateVlan_def assignVlanTo_def split: option.splits)
  moreover have "map_option accessVlan (interfaceOf s' ?g) = Some (Some (- 5))"
    by (simp add: s'_def interfaceOf_def)
  moreover have "map_option accessVlan (interfaceOf (hd (nodes ?t)) ?g) = Some (Some 1)"
    by (simp add: portSession_fields switchWithPort_fields defaultInterface_def)
  ultimately show ?thesis using m la portSession_fields(1) by (simp add: isDigit_def)
qed

text \<open>
  C10 (amended): in InterfaceConfig mode, a line that matches \<open>switchport access vlan\<close>,
  is not taken by the earlier \<open>shutdown\<close> test, and whose last argument \<open>parseInt\<close> reads
  as NaN is silently ignored: no device changes, the mode and the current interface stay,
  the response is empty (only the echoed line is appended to the transcript, so no
  \<open>%\<close> marker) and no request goes to the advisory service. \<open>parseInt\<close> gives NaN in
  particular for a text that begins with a character that is neither a digit, a sign nor
  white space, such as the word \<open>vlan\<close> itself when the number is missing.
\<close>

theorem handleCommand_accessVlan_NaN:
  assumes "mode (state t) = InterfaceConfig"
    and "matchCmd (typedCmd t) ''switchport access vlan''"
    and "\<not> matchCmd (typedCmd t) ''shutdown''"
    and "parseInt (lastArgument (typedCmd t)) = None"
  shows "nodes (handleCommand X t) = nodes t
         \<and> mode (state (handleCommand X t)) = InterfaceConfig
         \<and> contextInt (handleCommand X t) = contextInt t
         \<and> fixRequests (handleCommand X t) = fixRequests t
         \<and> output_t (handleCommand X t) = appendOutput t (input t) []
         \<and> appendOutput t (input t) [] =
             filter (\<lambda>line. line \<noteq> [])
               (output_t t @ [hostname_t (state t) @ ''(config-if)# '' @ input t])
         \<and> (s \<noteq> [] \<and> \<not> isDigit (hd s) \<and> hd s \<noteq> CHR ''+'' \<and> hd s \<noteq> CHR ''-''
              \<and> \<not> isSpace (hd s) \<longrightarrow> parseInt s = None)
         \<and> parseInt (lastArgument ''switchport access vlan'') = None"
proof -
  have pn: "parseInt (lastArgument ''switchport access vlan'') = None" by code_simp
  have "handleCommand X t =
        finish (t\<lparr>historyIdx := - 1\<rparr>) (input t) (newHistoryOf t) (initialLocals t)"
    unfolding reaches_cmdAccessVlan [OF assms(1-3)]
    by (simp add: cmdAccessVlan_def assms(4))
  then have "handleCommand X t =
        (t\<lparr>historyIdx := - 1\<rparr>)\<lparr>output_t := appendOutput (t\<lparr>historyIdx := - 1\<rparr>) (input t) [],
           state := (state t)\<lparr>mode := mode (state t), hostname_t := hostname_t (state t),
                              history := newHistoryOf t\<rparr>,
           input := []\<rparr>"
    by (simp add: initialLocals_def finish_plain)
  then show ?thesis using assms(1) parseInt_no_number [of s] pn by (simp add: appendOutput_def)
qed

theorem handleCommand_accessVlan_NaN_witness:
  "matchCmd (typedCmd (portSession ''GigabitEthernet0/1'' ''switchport access vlan''))
     ''switchport access vlan''
   \<and> \<not> matchCmd (typedCmd (portSession ''GigabitEthernet0/1'' ''switchport access vlan''))
       ''shutdown''
   \<and> parseInt (lastArgument (typedCmd (portSession ''GigabitEthernet0/1''
        ''switchport access vlan''))) = None
   \<and> nodes (handleCommand plainExternals
              (portSession ''GigabitEthernet0/1'' ''switchport access vlan''))
       = nodes (portSession ''GigabitEthernet0/1'' ''switchport access vlan'')
   \<and> mode (state (handleCommand plainExternals
              (portSession ''GigabitEthernet0/1'' ''switchport access vlan''))) = InterfaceConfig
   \<and> fixRequests (handleCommand plainExternals
              (portSession ''GigabitEthernet0/1'' ''switchport access vlan'')) = []
   \<and> output_t (handleCommand plainExternals
              (portSession ''GigabitEthernet0/1'' ''switchport access vlan''))
       = [''Switch(config-if)# switchport access vlan'']"
proof -
  let ?t = "portSession ''GigabitEthernet0/1'' ''switchport access vlan''"
  have tr: "trim ''switchport access vlan'' = ''switchport access vlan''" by code_simp
  have c: "typedCmd ?t = ''switchport access vlan''" by (simp only: portSession_fields tr)
  have m: "matchCmd (typedCmd ?t) ''switchport access vlan''" unfolding c by code_simp
  have ns: "\<not> matchCmd (typedCmd ?t) ''shutdown''" unfolding c by code_simp
  have p: "parseInt (lastArgument (typedCmd ?t)) = None" unfolding c by code_simp
  have f: "fixRequests ?t = []" "output_t ?t = []" "hostname_t (state ?t) = ''Switch''"
    "input ?t = ''switchport access vlan''"
    by (simp_all add: portSession_def session_def)
  from handleCommand_accessVlan_NaN [OF portSession_fields(1) m ns p, of plainExternals]
  show ?thesis using m ns p f by simp
qed
end
